theory Spec2Isabelle
  imports
    Main
    "HOL-Library.Word"
    "HOL-Library.Log_Nat"
    "HOL-Library.Char_ord"
    "HOL-Library.List_Lexorder"
    "HOL-Library.Sublist"
begin

unbundle bit_operations_syntax

section \<open>Machine values\<close>

type_synonym byte = "8 word"
type_synonym u64 = "64 word"

text \<open>
  A \<open>solana.PublicKey\<close> is a \<open>[32]byte\<close> array; \<open>Bytes()\<close> returns its contents, so
  a key is modelled by its byte sequence.
\<close>

type_synonym PublicKey = "byte list"

subsection \<open>Errors\<close>

text \<open>
  Every error of the service is made by \<open>errors.New\<close> or \<open>fmt.Errorf\<close> and carries
  nothing beyond its message. \<open>wrapf p e\<close> is \<open>fmt.Errorf(p + ": %w", e)\<close>.
\<close>

datatype error = Err (message: string)

definition wrapf :: "string \<Rightarrow> error \<Rightarrow> error" where
  "wrapf p e = Err (p @ '': '' @ message e)"

text \<open>
  The idiom \<open>v, err := f(); if err != nil { return nil, fmt.Errorf("p: %w", err) }\<close>
  is \<open>bindE (wrapE p f) (\<lambda>v. \<dots>)\<close>.
\<close>

definition bindE :: "error + 'a \<Rightarrow> ('a \<Rightarrow> error + 'b) \<Rightarrow> error + 'b" where
  "bindE r f = (case r of Inl e \<Rightarrow> Inl e | Inr v \<Rightarrow> f v)"

definition wrapE :: "string \<Rightarrow> error + 'a \<Rightarrow> error + 'a" where
  "wrapE p r = (case r of Inl e \<Rightarrow> Inl (wrapf p e) | Inr v \<Rightarrow> Inr v)"

text \<open>Decimal rendering of \<open>%d\<close>.\<close>

fun digits10 :: "nat \<Rightarrow> string" where
  "digits10 n =
     (if n < 10 then [char_of (48 + n)] else digits10 (n div 10) @ [char_of (48 + n mod 10)])"

declare digits10.simps [simp del]

definition itoa :: "int \<Rightarrow> string" where
  "itoa i = (if i < 0 then CHR ''-'' # digits10 (nat (- i)) else digits10 (nat i))"

subsection \<open>binary64 arithmetic\<close>

text \<open>
  Go's \<open>float64\<close>. \<open>Finite m e\<close> stands for the number \<open>m * 2^e\<close>; the arithmetic below
  computes the exact dyadic result and rounds it to the nearest value with a 53-bit
  significand, ties to even, with the subnormal quantum \<open>2^-1074\<close> and overflow to
  infinity at \<open>2^1024\<close>. The sign of a zero is not kept: no operation of the service
  distinguishes \<open>-0\<close> from \<open>0\<close> (both compare equal to 0 and convert to the integer 0).
  A value of the type is written in many ways (\<open>Finite 2 0\<close> and \<open>Finite 1 1\<close> are the same
  number); the operations read only the number, and they accept every dyadic, also one
  with more than 53 significant bits, which no \<open>float64\<close> variable holds.
\<close>

datatype float64 = Finite int int | PosInf | NegInf | NaN

definition rne_shift :: "int \<Rightarrow> nat \<Rightarrow> int" where
  \<comment> \<open>\<open>m / 2^k\<close> rounded to the nearest integer, ties to the even one\<close>
  "rne_shift m k =
     (let d = 2 ^ k; lo = m div d; r = m mod d
      in if 2 * r < d then lo
         else if d < 2 * r then lo + 1
         else if even lo then lo else lo + 1)"

definition round64 :: "int \<Rightarrow> int \<Rightarrow> float64" where
  \<comment> \<open>\<open>q\<close> is the exponent of the last place kept: 53 places below the leading bit of \<open>m\<close>,
      but not below the subnormal quantum\<close>
  "round64 m e =
     (if m = 0 then Finite 0 0
      else
        let q = max (e + bitlen \<bar>m\<bar> - 53) (- 1074);
            m' = (if q \<le> e then m else rne_shift m (nat (q - e)));
            e' = (if q \<le> e then e else q)
        in if 1024 < e' + bitlen \<bar>m'\<bar> then (if 0 < m then PosInf else NegInf)
           else Finite m' e')"

definition f64_of_uint64 :: "u64 \<Rightarrow> float64" where
  \<comment> \<open>the conversion \<open>float64(x)\<close> of a \<open>uint64\<close>\<close>
  "f64_of_uint64 a = round64 (uint a) 0"

definition f64_neg :: "float64 \<Rightarrow> float64" where
  "f64_neg x = (case x of Finite m e \<Rightarrow> Finite (- m) e | PosInf \<Rightarrow> NegInf
                | NegInf \<Rightarrow> PosInf | NaN \<Rightarrow> NaN)"

fun f64_add :: "float64 \<Rightarrow> float64 \<Rightarrow> float64" where
  "f64_add (Finite m e) (Finite n f) =
     (let g = min e f in round64 (m * 2 ^ nat (e - g) + n * 2 ^ nat (f - g)) g)"
| "f64_add NaN _ = NaN"
| "f64_add _ NaN = NaN"
| "f64_add PosInf NegInf = NaN"
| "f64_add NegInf PosInf = NaN"
| "f64_add PosInf _ = PosInf"
| "f64_add NegInf _ = NegInf"
| "f64_add _ PosInf = PosInf"
| "f64_add _ NegInf = NegInf"

definition f64_sub :: "float64 \<Rightarrow> float64 \<Rightarrow> float64" where
  "f64_sub x y = f64_add x (f64_neg y)"

fun f64_mul :: "float64 \<Rightarrow> float64 \<Rightarrow> float64" where
  "f64_mul (Finite m e) (Finite n f) = round64 (m * n) (e + f)"
| "f64_mul NaN _ = NaN"
| "f64_mul _ NaN = NaN"
| "f64_mul (Finite m e) PosInf = (if m = 0 then NaN else if 0 < m then PosInf else NegInf)"
| "f64_mul (Finite m e) NegInf = (if m = 0 then NaN else if 0 < m then NegInf else PosInf)"
| "f64_mul PosInf (Finite n f) = (if n = 0 then NaN else if 0 < n then PosInf else NegInf)"
| "f64_mul NegInf (Finite n f) = (if n = 0 then NaN else if 0 < n then NegInf else PosInf)"
| "f64_mul PosInf PosInf = PosInf"
| "f64_mul NegInf NegInf = PosInf"
| "f64_mul PosInf NegInf = NegInf"
| "f64_mul NegInf PosInf = NegInf"

fun f64_le :: "float64 \<Rightarrow> float64 \<Rightarrow> bool" where
  "f64_le (Finite m e) (Finite n f) =
     (let g = min e f in m * 2 ^ nat (e - g) \<le> n * 2 ^ nat (f - g))"
| "f64_le NaN _ = False"
| "f64_le _ NaN = False"
| "f64_le NegInf _ = True"
| "f64_le _ PosInf = True"
| "f64_le PosInf _ = False"
| "f64_le _ NegInf = False"

fun f64_lt :: "float64 \<Rightarrow> float64 \<Rightarrow> bool" where
  "f64_lt (Finite m e) (Finite n f) =
     (let g = min e f in m * 2 ^ nat (e - g) < n * 2 ^ nat (f - g))"
| "f64_lt NaN _ = False"
| "f64_lt _ NaN = False"
| "f64_lt PosInf _ = False"
| "f64_lt _ NegInf = False"
| "f64_lt NegInf _ = True"
| "f64_lt _ PosInf = True"

definition f64_zero :: float64 where "f64_zero = Finite 0 0"
definition f64_one :: float64 where "f64_one = Finite 1 0"

definition trunc_int :: "int \<Rightarrow> int \<Rightarrow> int" where
  \<comment> \<open>\<open>m * 2^e\<close> with the fraction discarded (towards zero)\<close>
  "trunc_int m e =
     (if 0 \<le> e then m * 2 ^ nat e
      else if 0 \<le> m then m div 2 ^ nat (- e) else - ((- m) div 2 ^ nat (- e)))"

text \<open>
  The conversion \<open>uint64(f)\<close>. Where the truncated value is not a \<open>uint64\<close> (negative,
  \<open>2^64\<close> or more, infinite, NaN) the Go specification leaves the result to the
  implementation: \<open>oor\<close> is what the platform yields there.
\<close>

definition uint64_of_f64 :: "(float64 \<Rightarrow> u64) \<Rightarrow> float64 \<Rightarrow> u64" where
  "uint64_of_f64 oor x =
     (case x of
        Finite m e \<Rightarrow>
          (let t = trunc_int m e in if 0 \<le> t \<and> t < 2 ^ 64 then word_of_int t else oor x)
      | _ \<Rightarrow> oor x)"

subsection \<open>Little-endian fields\<close>

definition PutUint64 :: "u64 \<Rightarrow> byte list" where
  \<comment> \<open>\<open>binary.LittleEndian.PutUint64\<close>: byte \<open>i\<close> is \<open>byte(v >> (8*i))\<close>\<close>
  "PutUint64 v = map (\<lambda>i. ucast (drop_bit (8 * i) v)) [0..<8]"

definition Uint64 :: "byte list \<Rightarrow> u64" where
  \<comment> \<open>\<open>binary.LittleEndian.Uint64\<close>: the decoder the payload is read back with\<close>
  "Uint64 b = foldr (\<lambda>x acc. ucast x OR push_bit 8 acc) (take 8 b) 0"

definition put_at :: "nat \<Rightarrow> byte list \<Rightarrow> byte list \<Rightarrow> byte list" where
  \<comment> \<open>writing \<open>src\<close> into the slice \<open>data[off : off + len(src)]\<close>\<close>
  "put_at off src data = take off data @ src @ drop (off + length src) data"


section \<open>Data model\<close>

text \<open>
  The request and configuration structs of \<open>types\<close> and \<open>config\<close>. The two request
  structs share field names; the shared ones are written qualified. Requests reach the
  adapters as the address of a struct the handler has bound from JSON, so a request is a
  value here (never a nil pointer). Timestamps are instants counted in seconds.
\<close>

record DEXConfig =
  Name :: string
  ProgramID :: string
  RouterAddress :: string
  Endpoints :: "string \<rightharpoonup> string"
  Enabled :: bool
  Timeout :: int
  RetryCount :: int

record LiquidityRequest =
  TokenAMint :: string
  TokenBMint :: string
  AmountA :: u64
  AmountB :: u64
  UserWallet :: string
  Slippage :: float64
  PriorityFee :: u64
  Operation :: string
  DEXType :: string
  ID :: string
  CreatedAt :: nat

record SwapRequest =
  InputMint :: string
  OutputMint :: string
  AmountIn :: u64
  UserWallet :: string
  Slippage :: float64
  PriorityFee :: u64
  DEXType :: string
  ID :: string
  CreatedAt :: nat

record AccountMeta =
  PublicKey :: PublicKey
  IsSigner :: bool
  IsWritable :: bool

record InstructionData =
  ProgramID :: PublicKey
  Accounts :: "AccountMeta list"
  Data :: "byte list"

text \<open>The argument of \<open>ValidateRequest(req interface{})\<close>: the type switch of each adapter
  tells the two request pointers from any other dynamic type.\<close>

datatype request = SwapReq SwapRequest | LiquidityReq LiquidityRequest | OtherReq

subsection \<open>The ledger SDK\<close>

text \<open>
  The functions of the package \<open>solana\<close> that the adapters call are not part of this
  repository; they are parameters of the model. \<open>FindProgramAddress\<close> and
  \<open>FindAssociatedTokenAddress\<close> return the derived address (the bump seed is discarded
  at every call site) or an error; \<open>String\<close> is the base58 text of a key.
\<close>

record solana =
  PublicKeyFromBase58 :: "string \<Rightarrow> error + PublicKey"
  FindProgramAddress :: "byte list list \<Rightarrow> PublicKey \<Rightarrow> error + PublicKey"
  FindAssociatedTokenAddress :: "PublicKey \<Rightarrow> PublicKey \<Rightarrow> error + PublicKey"
  String :: "PublicKey \<Rightarrow> string"
  TokenProgramID :: PublicKey
  SystemProgramID :: PublicKey

definition bytes_of :: "string \<Rightarrow> byte list" where
  \<comment> \<open>the conversion \<open>[]byte(s)\<close>\<close>
  "bytes_of s = map (\<lambda>c. of_nat (of_char c)) s"

section \<open>Shared adapter behaviour\<close>

record BaseAdapter =
  name :: string
  config :: DEXConfig

definition NewBaseAdapter :: "string \<Rightarrow> DEXConfig \<Rightarrow> BaseAdapter" where
  "NewBaseAdapter n cfg = \<lparr>name = n, config = cfg\<rparr>"

definition ValidateSwapRequest :: "SwapRequest \<Rightarrow> error option" where
  "ValidateSwapRequest req =
     (if InputMint req = [] then Some (Err ''input mint is required'')
      else if OutputMint req = [] then Some (Err ''output mint is required'')
      else if AmountIn req \<le> 0 then Some (Err ''amount must be positive'')
      else if SwapRequest.UserWallet req = [] then Some (Err ''user wallet is required'')
      else None)"

definition validateLiquidityRequest :: "solana \<Rightarrow> LiquidityRequest \<Rightarrow> error option" where
  "validateLiquidityRequest L req =
     (if Operation req \<noteq> ''add'' \<and> Operation req \<noteq> ''remove''
        then Some (Err (''operation must be 'add' or 'remove'' @ [CHR 0x27]))
      else if TokenAMint req = [] then Some (Err ''token A mint is required'')
      else if TokenBMint req = [] then Some (Err ''token B mint is required'')
      else if AmountA req = 0 then Some (Err ''amount A must be greater than 0'')
      else if AmountB req = 0 then Some (Err ''amount B must be greater than 0'')
      else if LiquidityRequest.UserWallet req = [] then Some (Err ''user wallet is required'')
      else if f64_lt (LiquidityRequest.Slippage req) f64_zero
              \<or> f64_lt f64_one (LiquidityRequest.Slippage req)
        then Some (Err ''slippage must be between 0 and 1'')
      else case PublicKeyFromBase58 L (TokenAMint req) of
        Inl e \<Rightarrow> Some (wrapf ''invalid token A mint address'' e)
      | Inr _ \<Rightarrow>
      (case PublicKeyFromBase58 L (TokenBMint req) of
        Inl e \<Rightarrow> Some (wrapf ''invalid token B mint address'' e)
      | Inr _ \<Rightarrow>
      (case PublicKeyFromBase58 L (LiquidityRequest.UserWallet req) of
        Inl e \<Rightarrow> Some (wrapf ''invalid user wallet address'' e)
      | Inr _ \<Rightarrow> None)))"

definition createInstruction :: "PublicKey \<Rightarrow> AccountMeta list \<Rightarrow> byte list \<Rightarrow> InstructionData" where
  "createInstruction programID accounts data =
     \<lparr>ProgramID = programID, Accounts = accounts, Data = data\<rparr>"

definition calculateMinAmountOut :: "(float64 \<Rightarrow> u64) \<Rightarrow> u64 \<Rightarrow> float64 \<Rightarrow> u64" where
  "calculateMinAmountOut oor amountOut slippage =
     (if f64_le slippage f64_zero then amountOut
      else uint64_of_f64 oor (f64_mul (f64_of_uint64 amountOut) (f64_sub f64_one slippage)))"


section \<open>Raydium adapter\<close>

definition Raydium_buildSwapInstructionData :: "(float64 \<Rightarrow> u64) \<Rightarrow> SwapRequest \<Rightarrow> byte list" where
  "Raydium_buildSwapInstructionData oor req =
     (let data = replicate 17 0;
          data = data[0 := 9];
          data = put_at 1 (PutUint64 (AmountIn req)) data;
          minAmountOut = calculateMinAmountOut oor (AmountIn req) (SwapRequest.Slippage req);
          data = put_at 9 (PutUint64 minAmountOut) data
      in data)"

definition Raydium_buildLiquidityInstructionData :: "LiquidityRequest \<Rightarrow> byte list" where
  "Raydium_buildLiquidityInstructionData req =
     (let data = replicate 18 0;
          data = data[0 := 10];
          data = (if Operation req = ''add'' then data[1 := 0] else data[1 := 1]);
          data = put_at 2 (PutUint64 (AmountA req)) data;
          data = put_at 10 (PutUint64 (AmountB req)) data
      in data)"

definition Raydium_BuildSwapInstruction ::
  "solana \<Rightarrow> (float64 \<Rightarrow> u64) \<Rightarrow> PublicKey \<Rightarrow> SwapRequest \<Rightarrow> error + InstructionData" where
  "Raydium_BuildSwapInstruction L oor programID req =
     (case ValidateSwapRequest req of
        Some e \<Rightarrow> Inl e
      | None \<Rightarrow>
      bindE (wrapE ''invalid user wallet'' (PublicKeyFromBase58 L (SwapRequest.UserWallet req))) (\<lambda>userWallet.
      bindE (wrapE ''invalid input mint'' (PublicKeyFromBase58 L (InputMint req))) (\<lambda>inputMint.
      bindE (wrapE ''invalid output mint'' (PublicKeyFromBase58 L (OutputMint req))) (\<lambda>outputMint.
      bindE (wrapE ''failed to find input token account'' (FindAssociatedTokenAddress L userWallet inputMint)) (\<lambda>userInputTokenAccount.
      bindE (wrapE ''failed to find output token account'' (FindAssociatedTokenAddress L userWallet outputMint)) (\<lambda>userOutputTokenAccount.
      let instructionData = Raydium_buildSwapInstructionData oor req;
          accounts =
            [\<lparr>PublicKey = userWallet, IsSigner = True, IsWritable = False\<rparr>,
             \<lparr>PublicKey = userInputTokenAccount, IsSigner = False, IsWritable = True\<rparr>,
             \<lparr>PublicKey = userOutputTokenAccount, IsSigner = False, IsWritable = True\<rparr>,
             \<lparr>PublicKey = inputMint, IsSigner = False, IsWritable = False\<rparr>,
             \<lparr>PublicKey = outputMint, IsSigner = False, IsWritable = False\<rparr>,
             \<lparr>PublicKey = TokenProgramID L, IsSigner = False, IsWritable = False\<rparr>]
      in Inr (createInstruction programID accounts instructionData)))))))"

definition Raydium_BuildLiquidityInstruction ::
  "solana \<Rightarrow> PublicKey \<Rightarrow> LiquidityRequest \<Rightarrow> error + InstructionData" where
  "Raydium_BuildLiquidityInstruction L programID req =
     (case validateLiquidityRequest L req of
        Some e \<Rightarrow> Inl e
      | None \<Rightarrow>
      bindE (wrapE ''invalid user wallet'' (PublicKeyFromBase58 L (LiquidityRequest.UserWallet req))) (\<lambda>userWallet.
      bindE (wrapE ''invalid token A mint'' (PublicKeyFromBase58 L (TokenAMint req))) (\<lambda>tokenAMint.
      bindE (wrapE ''invalid token B mint'' (PublicKeyFromBase58 L (TokenBMint req))) (\<lambda>tokenBMint.
      bindE (wrapE ''failed to find token A account'' (FindAssociatedTokenAddress L userWallet tokenAMint)) (\<lambda>userTokenAAccount.
      bindE (wrapE ''failed to find token B account'' (FindAssociatedTokenAddress L userWallet tokenBMint)) (\<lambda>userTokenBAccount.
      let instructionData = Raydium_buildLiquidityInstructionData req;
          accounts =
            [\<lparr>PublicKey = userWallet, IsSigner = True, IsWritable = False\<rparr>,
             \<lparr>PublicKey = userTokenAAccount, IsSigner = False, IsWritable = True\<rparr>,
             \<lparr>PublicKey = userTokenBAccount, IsSigner = False, IsWritable = True\<rparr>,
             \<lparr>PublicKey = tokenAMint, IsSigner = False, IsWritable = False\<rparr>,
             \<lparr>PublicKey = tokenBMint, IsSigner = False, IsWritable = False\<rparr>,
             \<lparr>PublicKey = TokenProgramID L, IsSigner = False, IsWritable = False\<rparr>]
      in Inr (createInstruction programID accounts instructionData)))))))"

definition Raydium_ValidateRequest :: "solana \<Rightarrow> request \<Rightarrow> error option" where
  "Raydium_ValidateRequest L req =
     (case req of
        SwapReq v \<Rightarrow> ValidateSwapRequest v
      | LiquidityReq v \<Rightarrow> validateLiquidityRequest L v
      | OtherReq \<Rightarrow> Some (Err ''unsupported request type''))"

section \<open>Pumpfun adapter\<close>

definition SOL_MINT :: string where
  "SOL_MINT = ''So11111111111111111111111111111111111111112''"

definition Pumpfun_buildSwapInstructionData :: "(float64 \<Rightarrow> u64) \<Rightarrow> SwapRequest \<Rightarrow> byte list" where
  "Pumpfun_buildSwapInstructionData oor req =
     (let data = replicate 18 0;
          data = (if InputMint req = SOL_MINT then data[0 := 6] else data[0 := 7]);
          data = put_at 1 (PutUint64 (AmountIn req)) data;
          minAmountOut = calculateMinAmountOut oor (AmountIn req) (SwapRequest.Slippage req);
          data = put_at 9 (PutUint64 minAmountOut) data;
          data = (if InputMint req = SOL_MINT then data[17 := 0] else data[17 := 1])
      in data)"

definition deriveBondingCurveAddress :: "solana \<Rightarrow> PublicKey \<Rightarrow> PublicKey \<Rightarrow> error + PublicKey" where
  "deriveBondingCurveAddress L programID mint =
     (let seeds = [bytes_of ''bonding-curve'', mint]
      in case FindProgramAddress L seeds programID of
           Inl e \<Rightarrow> Inl (wrapf ''failed to derive bonding curve address'' e)
         | Inr address \<Rightarrow> Inr address)"

definition deriveBondingCurveTokenAccount ::
  "solana \<Rightarrow> PublicKey \<Rightarrow> PublicKey \<Rightarrow> error + PublicKey" where
  "deriveBondingCurveTokenAccount L bondingCurve mint =
     (case FindAssociatedTokenAddress L bondingCurve mint of
        Inl e \<Rightarrow> Inl (wrapf ''failed to derive bonding curve token account'' e)
      | Inr address \<Rightarrow> Inr address)"

definition Pumpfun_BuildSwapInstruction ::
  "solana \<Rightarrow> (float64 \<Rightarrow> u64) \<Rightarrow> PublicKey \<Rightarrow> SwapRequest \<Rightarrow> error + InstructionData" where
  "Pumpfun_BuildSwapInstruction L oor programID req =
     (case ValidateSwapRequest req of
        Some e \<Rightarrow> Inl e
      | None \<Rightarrow>
      bindE (wrapE ''invalid user wallet'' (PublicKeyFromBase58 L (SwapRequest.UserWallet req))) (\<lambda>userWallet.
      bindE (wrapE ''invalid input mint'' (PublicKeyFromBase58 L (InputMint req))) (\<lambda>inputMint.
      bindE (wrapE ''invalid output mint'' (PublicKeyFromBase58 L (OutputMint req))) (\<lambda>outputMint.
      bindE (wrapE ''failed to derive bonding curve'' (deriveBondingCurveAddress L programID outputMint)) (\<lambda>bondingCurve.
      bindE (wrapE ''failed to derive bonding curve token account'' (deriveBondingCurveTokenAccount L bondingCurve outputMint)) (\<lambda>bondingCurveTokenAccount.
      bindE (wrapE ''failed to find input token account'' (FindAssociatedTokenAddress L userWallet inputMint)) (\<lambda>userInputTokenAccount.
      bindE (wrapE ''failed to find output token account'' (FindAssociatedTokenAddress L userWallet outputMint)) (\<lambda>userOutputTokenAccount.
      let instructionData = Pumpfun_buildSwapInstructionData oor req;
          accounts =
            [\<lparr>PublicKey = userWallet, IsSigner = True, IsWritable = False\<rparr>,
             \<lparr>PublicKey = userInputTokenAccount, IsSigner = False, IsWritable = True\<rparr>,
             \<lparr>PublicKey = userOutputTokenAccount, IsSigner = False, IsWritable = True\<rparr>,
             \<lparr>PublicKey = bondingCurve, IsSigner = False, IsWritable = True\<rparr>,
             \<lparr>PublicKey = bondingCurveTokenAccount, IsSigner = False, IsWritable = True\<rparr>,
             \<lparr>PublicKey = inputMint, IsSigner = False, IsWritable = False\<rparr>,
             \<lparr>PublicKey = outputMint, IsSigner = False, IsWritable = True\<rparr>,
             \<lparr>PublicKey = TokenProgramID L, IsSigner = False, IsWritable = False\<rparr>,
             \<lparr>PublicKey = SystemProgramID L, IsSigner = False, IsWritable = False\<rparr>]
      in Inr (createInstruction programID accounts instructionData)))))))))"

definition Pumpfun_BuildLiquidityInstruction :: "LiquidityRequest \<Rightarrow> error + InstructionData" where
  "Pumpfun_BuildLiquidityInstruction req =
     Inl (Err ''pumpfun does not support traditional liquidity operations'')"

definition Pumpfun_ValidateRequest :: "request \<Rightarrow> error option" where
  "Pumpfun_ValidateRequest req =
     (case req of
        SwapReq v \<Rightarrow> ValidateSwapRequest v
      | LiquidityReq v \<Rightarrow> Some (Err ''pumpfun does not support liquidity operations'')
      | OtherReq \<Rightarrow> Some (Err ''unsupported request type''))"


section \<open>PumpSwap adapter\<close>

definition PumpSwap_buildSwapInstructionData :: "(float64 \<Rightarrow> u64) \<Rightarrow> SwapRequest \<Rightarrow> byte list" where
  "PumpSwap_buildSwapInstructionData oor req =
     (let data = replicate 17 0;
          data = data[0 := 1];
          data = put_at 1 (PutUint64 (AmountIn req)) data;
          minAmountOut = calculateMinAmountOut oor (AmountIn req) (SwapRequest.Slippage req);
          data = put_at 9 (PutUint64 minAmountOut) data
      in data)"

definition PumpSwap_buildLiquidityInstructionData :: "LiquidityRequest \<Rightarrow> byte list" where
  "PumpSwap_buildLiquidityInstructionData req =
     (let data = replicate 18 0;
          data = (if Operation req = ''add'' then data[0 := 2] else data[0 := 3]);
          data = (if Operation req = ''add'' then data[1 := 0] else data[1 := 1]);
          data = put_at 2 (PutUint64 (AmountA req)) data;
          data = put_at 10 (PutUint64 (AmountB req)) data
      in data)"

definition pool_seeds :: "solana \<Rightarrow> PublicKey \<Rightarrow> PublicKey \<Rightarrow> byte list list" where
  \<comment> \<open>the seeds \<open>findPoolAddress\<close> assembles before it derives the address\<close>
  "pool_seeds L tokenA tokenB =
     (if String L tokenA < String L tokenB
      then [bytes_of ''pool'', tokenA, tokenB]
      else [bytes_of ''pool'', tokenB, tokenA])"

definition findPoolAddress ::
  "solana \<Rightarrow> PublicKey \<Rightarrow> PublicKey \<Rightarrow> PublicKey \<Rightarrow> error + PublicKey" where
  "findPoolAddress L programID tokenA tokenB =
     (case FindProgramAddress L (pool_seeds L tokenA tokenB) programID of
        Inl e \<Rightarrow> Inl (wrapf ''failed to derive pool address'' e)
      | Inr address \<Rightarrow> Inr address)"

definition findOrCreatePoolAddress ::
  "solana \<Rightarrow> PublicKey \<Rightarrow> PublicKey \<Rightarrow> PublicKey \<Rightarrow> error + PublicKey" where
  "findOrCreatePoolAddress L programID tokenA tokenB =
     (case findPoolAddress L programID tokenA tokenB of
        Inl e \<Rightarrow> Inl e
      | Inr poolAddress \<Rightarrow> Inr poolAddress)"

definition deriveLPMintAddress :: "solana \<Rightarrow> PublicKey \<Rightarrow> PublicKey \<Rightarrow> error + PublicKey" where
  "deriveLPMintAddress L programID poolAddress =
     (let seeds = [bytes_of ''lp-mint'', poolAddress]
      in case FindProgramAddress L seeds programID of
           Inl e \<Rightarrow> Inl (wrapf ''failed to derive LP mint address'' e)
         | Inr address \<Rightarrow> Inr address)"

definition PumpSwap_BuildSwapInstruction ::
  "solana \<Rightarrow> (float64 \<Rightarrow> u64) \<Rightarrow> PublicKey \<Rightarrow> PublicKey \<Rightarrow> SwapRequest
     \<Rightarrow> error + InstructionData" where
  "PumpSwap_BuildSwapInstruction L oor programID routerAddress req =
     (case ValidateSwapRequest req of
        Some e \<Rightarrow> Inl e
      | None \<Rightarrow>
      bindE (wrapE ''invalid user wallet'' (PublicKeyFromBase58 L (SwapRequest.UserWallet req))) (\<lambda>userWallet.
      bindE (wrapE ''invalid input mint'' (PublicKeyFromBase58 L (InputMint req))) (\<lambda>inputMint.
      bindE (wrapE ''invalid output mint'' (PublicKeyFromBase58 L (OutputMint req))) (\<lambda>outputMint.
      bindE (wrapE ''failed to find pool'' (findPoolAddress L programID inputMint outputMint)) (\<lambda>poolAddress.
      bindE (wrapE ''failed to find pool input token account'' (FindAssociatedTokenAddress L poolAddress inputMint)) (\<lambda>poolInputTokenAccount.
      bindE (wrapE ''failed to find pool output token account'' (FindAssociatedTokenAddress L poolAddress outputMint)) (\<lambda>poolOutputTokenAccount.
      bindE (wrapE ''failed to find user input token account'' (FindAssociatedTokenAddress L userWallet inputMint)) (\<lambda>userInputTokenAccount.
      bindE (wrapE ''failed to find user output token account'' (FindAssociatedTokenAddress L userWallet outputMint)) (\<lambda>userOutputTokenAccount.
      let instructionData = PumpSwap_buildSwapInstructionData oor req;
          accounts =
            [\<lparr>PublicKey = userWallet, IsSigner = True, IsWritable = False\<rparr>,
             \<lparr>PublicKey = userInputTokenAccount, IsSigner = False, IsWritable = True\<rparr>,
             \<lparr>PublicKey = userOutputTokenAccount, IsSigner = False, IsWritable = True\<rparr>,
             \<lparr>PublicKey = poolAddress, IsSigner = False, IsWritable = True\<rparr>,
             \<lparr>PublicKey = poolInputTokenAccount, IsSigner = False, IsWritable = True\<rparr>,
             \<lparr>PublicKey = poolOutputTokenAccount, IsSigner = False, IsWritable = True\<rparr>,
             \<lparr>PublicKey = routerAddress, IsSigner = False, IsWritable = False\<rparr>,
             \<lparr>PublicKey = inputMint, IsSigner = False, IsWritable = False\<rparr>,
             \<lparr>PublicKey = outputMint, IsSigner = False, IsWritable = False\<rparr>,
             \<lparr>PublicKey = TokenProgramID L, IsSigner = False, IsWritable = False\<rparr>]
      in Inr (createInstruction programID accounts instructionData))))))))))"

definition PumpSwap_BuildLiquidityInstruction ::
  "solana \<Rightarrow> PublicKey \<Rightarrow> LiquidityRequest \<Rightarrow> error + InstructionData" where
  "PumpSwap_BuildLiquidityInstruction L programID req =
     (case validateLiquidityRequest L req of
        Some e \<Rightarrow> Inl e
      | None \<Rightarrow>
      bindE (wrapE ''invalid user wallet'' (PublicKeyFromBase58 L (LiquidityRequest.UserWallet req))) (\<lambda>userWallet.
      bindE (wrapE ''invalid token A mint'' (PublicKeyFromBase58 L (TokenAMint req))) (\<lambda>tokenAMint.
      bindE (wrapE ''invalid token B mint'' (PublicKeyFromBase58 L (TokenBMint req))) (\<lambda>tokenBMint.
      bindE (wrapE ''failed to find/create pool'' (findOrCreatePoolAddress L programID tokenAMint tokenBMint)) (\<lambda>poolAddress.
      bindE (wrapE ''failed to derive LP mint'' (deriveLPMintAddress L programID poolAddress)) (\<lambda>lpMint.
      bindE (wrapE ''failed to find user token A account'' (FindAssociatedTokenAddress L userWallet tokenAMint)) (\<lambda>userTokenAAccount.
      bindE (wrapE ''failed to find user token B account'' (FindAssociatedTokenAddress L userWallet tokenBMint)) (\<lambda>userTokenBAccount.
      bindE (wrapE ''failed to find user LP token account'' (FindAssociatedTokenAddress L userWallet lpMint)) (\<lambda>userLPTokenAccount.
      let instructionData = PumpSwap_buildLiquidityInstructionData req;
          accounts =
            [\<lparr>PublicKey = userWallet, IsSigner = True, IsWritable = False\<rparr>,
             \<lparr>PublicKey = userTokenAAccount, IsSigner = False, IsWritable = True\<rparr>,
             \<lparr>PublicKey = userTokenBAccount, IsSigner = False, IsWritable = True\<rparr>,
             \<lparr>PublicKey = userLPTokenAccount, IsSigner = False, IsWritable = True\<rparr>,
             \<lparr>PublicKey = poolAddress, IsSigner = False, IsWritable = True\<rparr>,
             \<lparr>PublicKey = lpMint, IsSigner = False, IsWritable = True\<rparr>,
             \<lparr>PublicKey = tokenAMint, IsSigner = False, IsWritable = False\<rparr>,
             \<lparr>PublicKey = tokenBMint, IsSigner = False, IsWritable = False\<rparr>,
             \<lparr>PublicKey = TokenProgramID L, IsSigner = False, IsWritable = False\<rparr>]
      in Inr (createInstruction programID accounts instructionData))))))))))"

definition PumpSwap_ValidateRequest :: "solana \<Rightarrow> request \<Rightarrow> error option" where
  "PumpSwap_ValidateRequest L req =
     (case req of
        SwapReq v \<Rightarrow> ValidateSwapRequest v
      | LiquidityReq v \<Rightarrow> validateLiquidityRequest L v
      | OtherReq \<Rightarrow> Some (Err ''unsupported request type''))"

section \<open>The adapter interface and the registry\<close>

text \<open>
  \<open>types.DEXAdapter\<close> has three implementations; a value of the interface is one of the
  three adapter structs, each embedding the base adapter. The base adapter keeps the
  address of the configuration entry it was made from; here it keeps the entry as it
  stood when the constructor ran. The name, the program id and the router address, which
  are all that the operations below read of an adapter, are copied by the constructors.
\<close>

datatype DEXAdapter =
    RaydiumAdapter BaseAdapter PublicKey
  | PumpfunAdapter BaseAdapter PublicKey
  | PumpSwapAdapter BaseAdapter PublicKey PublicKey

definition NewRaydiumAdapter :: "solana \<Rightarrow> DEXConfig \<Rightarrow> error + DEXAdapter" where
  "NewRaydiumAdapter L cfg =
     (case PublicKeyFromBase58 L (DEXConfig.ProgramID cfg) of
        Inl e \<Rightarrow> Inl (wrapf ''invalid program ID'' e)
      | Inr programID \<Rightarrow> Inr (RaydiumAdapter (NewBaseAdapter (Name cfg) cfg) programID))"

definition NewPumpfunAdapter :: "solana \<Rightarrow> DEXConfig \<Rightarrow> error + DEXAdapter" where
  "NewPumpfunAdapter L cfg =
     (case PublicKeyFromBase58 L (DEXConfig.ProgramID cfg) of
        Inl e \<Rightarrow> Inl (wrapf ''invalid program ID'' e)
      | Inr programID \<Rightarrow> Inr (PumpfunAdapter (NewBaseAdapter (Name cfg) cfg) programID))"

definition NewPumpSwapAdapter :: "solana \<Rightarrow> DEXConfig \<Rightarrow> error + DEXAdapter" where
  "NewPumpSwapAdapter L cfg =
     (case PublicKeyFromBase58 L (DEXConfig.ProgramID cfg) of
        Inl e \<Rightarrow> Inl (wrapf ''invalid program ID'' e)
      | Inr programID \<Rightarrow>
     (case PublicKeyFromBase58 L (RouterAddress cfg) of
        Inl e \<Rightarrow> Inl (wrapf ''invalid router address'' e)
      | Inr routerAddress \<Rightarrow>
          Inr (PumpSwapAdapter (NewBaseAdapter (Name cfg) cfg) programID routerAddress)))"

fun GetName :: "DEXAdapter \<Rightarrow> string" where
  "GetName (RaydiumAdapter b _) = name b"
| "GetName (PumpfunAdapter b _) = name b"
| "GetName (PumpSwapAdapter b _ _) = name b"

fun ValidateRequest :: "solana \<Rightarrow> DEXAdapter \<Rightarrow> request \<Rightarrow> error option" where
  "ValidateRequest L (RaydiumAdapter _ _) req = Raydium_ValidateRequest L req"
| "ValidateRequest L (PumpfunAdapter _ _) req = Pumpfun_ValidateRequest req"
| "ValidateRequest L (PumpSwapAdapter _ _ _) req = PumpSwap_ValidateRequest L req"

fun BuildSwapInstruction ::
  "solana \<Rightarrow> (float64 \<Rightarrow> u64) \<Rightarrow> DEXAdapter \<Rightarrow> SwapRequest \<Rightarrow> error + InstructionData" where
  "BuildSwapInstruction L oor (RaydiumAdapter _ programID) req =
     Raydium_BuildSwapInstruction L oor programID req"
| "BuildSwapInstruction L oor (PumpfunAdapter _ programID) req =
     Pumpfun_BuildSwapInstruction L oor programID req"
| "BuildSwapInstruction L oor (PumpSwapAdapter _ programID routerAddress) req =
     PumpSwap_BuildSwapInstruction L oor programID routerAddress req"

fun BuildLiquidityInstruction ::
  "solana \<Rightarrow> DEXAdapter \<Rightarrow> LiquidityRequest \<Rightarrow> error + InstructionData" where
  "BuildLiquidityInstruction L (RaydiumAdapter _ programID) req =
     Raydium_BuildLiquidityInstruction L programID req"
| "BuildLiquidityInstruction L (PumpfunAdapter _ _) req = Pumpfun_BuildLiquidityInstruction req"
| "BuildLiquidityInstruction L (PumpSwapAdapter _ programID _) req =
     PumpSwap_BuildLiquidityInstruction L programID req"

type_synonym AdapterRegistry = "string \<rightharpoonup> DEXAdapter"

definition NewAdapterRegistry :: AdapterRegistry where
  "NewAdapterRegistry = Map.empty"

definition Register :: "AdapterRegistry \<Rightarrow> string \<Rightarrow> DEXAdapter \<Rightarrow> AdapterRegistry" where
  "Register r n adapter = r(n \<mapsto> adapter)"

definition Get :: "AdapterRegistry \<Rightarrow> string \<Rightarrow> error + DEXAdapter" where
  "Get r n =
     (case r n of
        None \<Rightarrow> Inl (Err (''adapter not found: '' @ n))
      | Some adapter \<Rightarrow> Inr adapter)"


section \<open>Outbound HTTP calls\<close>

text \<open>
  \<open>makeRequest\<close> of the base adapter. The HTTP client, the JSON codec and the clock are
  outside the repository: \<open>Do i\<close> is what the \<open>i\<close>-th call of \<open>client.Do\<close> returns (the
  response, the error, or both), \<open>Marshal\<close>, \<open>NewRequestWithContext\<close> and \<open>Decode\<close> are the
  outcomes of the other library calls. The state of the retry loop records, besides the
  variables \<open>resp\<close> and \<open>err\<close>, the number of calls made and the sleeps taken, in seconds.
  A call either returns or panics (a nil dereference).

  \<open>NewRequestWithContext\<close> is the error with which \<open>net/http\<close> refuses the method, the
  context or the URL. These checks come first; the library then inspects the body. When
  \<open>makeRequest\<close> is called without a body, \<open>reqBody\<close> is a nil \<open>*bytes.Reader\<close>, and the
  \<open>io.Reader\<close> it is passed as is not nil: the library takes the case \<open>*bytes.Reader\<close> of
  its type switch and calls \<open>Len\<close> on the nil pointer, which panics before any request is
  sent.
\<close>

record Response =
  StatusCode :: int
  Body :: string

datatype do_result = Do_result (do_resp: "Response option") (do_err: "error option")

record http =
  Marshal :: "error option"
  NewRequestWithContext :: "error option"
  Do :: "nat \<Rightarrow> do_result"
  Decode :: "Response \<Rightarrow> error option"

record loop_state =
  resp :: "Response option"
  err :: "error option"
  calls :: nat
  sleeps :: "int list"
  panicked :: bool

datatype 'a outcome = Return 'a | Panic

definition loop_init :: loop_state where
  "loop_init = \<lparr>resp = None, err = None, calls = 0, sleeps = [], panicked = False\<rparr>"

function retry_loop :: "int \<Rightarrow> (nat \<Rightarrow> do_result) \<Rightarrow> nat \<Rightarrow> loop_state \<Rightarrow> loop_state" where
  "retry_loop retryCount do i st =
     (if int i < retryCount then
        (let st = st\<lparr>resp := do_resp (do i), err := do_err (do i), calls := calls st + 1\<rparr>
         in case (err st, resp st) of
              (None, None) \<Rightarrow> st\<lparr>panicked := True\<rparr>
            | (None, Some r) \<Rightarrow>
                if StatusCode r < 500 then st
                else retry_loop retryCount do (Suc i)
                       (if int i < retryCount - 1 then st\<lparr>sleeps := sleeps st @ [int i + 1]\<rparr>
                        else st)
            | (Some e, _) \<Rightarrow>
                retry_loop retryCount do (Suc i)
                  (if int i < retryCount - 1 then st\<lparr>sleeps := sleeps st @ [int i + 1]\<rparr>
                   else st))
      else st)"
  by pat_completeness auto
termination
  by (relation "measure (\<lambda>(n, d, i, st). nat (n - int i))") auto

declare retry_loop.simps [simp del]

definition makeRequest :: "http \<Rightarrow> int \<Rightarrow> bool \<Rightarrow> bool \<Rightarrow> error option outcome \<times> loop_state" where
  "makeRequest H retryCount hasBody hasResult =
     (case (if hasBody then Marshal H else None) of
        Some e \<Rightarrow> (Return (Some (wrapf ''failed to marshal request body'' e)), loop_init)
      | None \<Rightarrow>
     (case NewRequestWithContext H of
        Some e \<Rightarrow> (Return (Some (wrapf ''failed to create request'' e)), loop_init)
      | None \<Rightarrow>
      if \<not> hasBody then (Panic, loop_init)
      else
     (let st = retry_loop retryCount (Do H) 0 loop_init
      in if panicked st then (Panic, st)
         else case err st of
           Some e \<Rightarrow>
             (Return (Some (wrapf (''request failed after '' @ itoa retryCount @ '' retries'') e)),
              st)
         | None \<Rightarrow>
        (case resp st of
           None \<Rightarrow> (Panic, st)
         | Some r \<Rightarrow>
             if 400 \<le> StatusCode r
             then (Return (Some (Err (''request failed with status '' @ itoa (StatusCode r)))), st)
             else if hasResult
             then (case Decode H r of
                     Some e \<Rightarrow> (Return (Some (wrapf ''failed to decode response'' e)), st)
                   | None \<Rightarrow> (Return None, st))
             else (Return None, st)))))"


section \<open>Transaction service\<close>

text \<open>
  Of \<open>config.Config\<close> the service reads the RPC address and the DEX entries. The ledger
  RPC client, the transaction type of the SDK with its constructor and serializer, the
  UUID generator, the clock and base64 are outside the repository and are the fields of
  \<open>world\<close>: each holds what the call returns.
\<close>

record Config =
  RPCURL :: string
  DEXes :: "DEXConfig list"

record TransactionService =
  config :: Config
  adapterRegistry :: AdapterRegistry
  rpcClient :: string

record Transaction =
  Instructions :: "InstructionData list"
  RecentBlockhash :: "byte list"
  FeePayer :: PublicKey

record world =
  uuid_New :: string
  time_Now :: nat
  GetRecentBlockhash :: "error + byte list"
  NewTransaction :: "InstructionData list \<Rightarrow> byte list \<Rightarrow> PublicKey \<Rightarrow> error + Transaction"
  GetFeeForMessage :: "Transaction \<Rightarrow> error + u64 option"
  MarshalBinary :: "Transaction \<Rightarrow> error + byte list"
  EncodeToString :: "byte list \<Rightarrow> string"
  MustPublicKeyFromBase58 :: "string \<Rightarrow> PublicKey"

record TransactionResponse =
  Success :: bool
  Transaction :: string
  EstimatedFee :: u64
  RequestID :: string
  Error :: string

text \<open>The loop of \<open>NewTransactionService\<close> over \<open>cfg.DEXes\<close>, threading the registry.\<close>

fun register_adapters :: "solana \<Rightarrow> DEXConfig list \<Rightarrow> AdapterRegistry \<Rightarrow> AdapterRegistry" where
  "register_adapters L [] r = r"
| "register_adapters L (dexCfg # rest) r =
     register_adapters L rest
       (if \<not> Enabled dexCfg then r
        else if Name dexCfg = ''raydium'' then
          (case NewRaydiumAdapter L dexCfg of
             Inr adapter \<Rightarrow> Register r (Name dexCfg) adapter | Inl _ \<Rightarrow> r)
        else if Name dexCfg = ''pumpfun'' then
          (case NewPumpfunAdapter L dexCfg of
             Inr adapter \<Rightarrow> Register r (Name dexCfg) adapter | Inl _ \<Rightarrow> r)
        else if Name dexCfg = ''pumpswap'' then
          (case NewPumpSwapAdapter L dexCfg of
             Inr adapter \<Rightarrow> Register r (Name dexCfg) adapter | Inl _ \<Rightarrow> r)
        else r)"

definition NewTransactionService :: "solana \<Rightarrow> Config \<Rightarrow> TransactionService" where
  "NewTransactionService L cfg =
     \<lparr>config = cfg,
      adapterRegistry = register_adapters L (DEXes cfg) NewAdapterRegistry,
      rpcClient = RPCURL cfg\<rparr>"

definition GetDEXAdapter :: "TransactionService \<Rightarrow> string \<Rightarrow> error + DEXAdapter" where
  "GetDEXAdapter ts n = Get (adapterRegistry ts) n"

definition NewInstruction :: "PublicKey \<Rightarrow> AccountMeta list \<Rightarrow> byte list \<Rightarrow> InstructionData" where
  "NewInstruction programID accounts data =
     \<lparr>ProgramID = programID, Accounts = accounts, Data = data\<rparr>"

definition createPriorityFeeInstruction :: "world \<Rightarrow> u64 \<Rightarrow> InstructionData" where
  "createPriorityFeeInstruction W priorityFee =
     (let computeBudgetProgramID =
            MustPublicKeyFromBase58 W ''ComputeBudget111111111111111111111111111111'';
          data = replicate 9 0;
          data = data[0 := 3];
          data = put_at 1 (map (\<lambda>i. ucast (drop_bit (i * 8) priorityFee)) [0..<8]) data
      in NewInstruction computeBudgetProgramID [] data)"

definition buildTransaction ::
  "solana \<Rightarrow> world \<Rightarrow> InstructionData list \<Rightarrow> string \<Rightarrow> u64 \<Rightarrow> error + Transaction" where
  "buildTransaction L W instructions payerAddress priorityFee =
     bindE (wrapE ''invalid payer address'' (PublicKeyFromBase58 L payerAddress)) (\<lambda>payer.
     bindE (wrapE ''failed to get recent blockhash'' (GetRecentBlockhash W)) (\<lambda>recentBlockhash.
     let instructions =
           (if 0 < priorityFee then createPriorityFeeInstruction W priorityFee # instructions
            else instructions)
     in wrapE ''failed to create transaction'' (NewTransaction W instructions recentBlockhash payer)))"

definition estimateTransactionFee :: "world \<Rightarrow> Transaction \<Rightarrow> error + u64" where
  "estimateTransactionFee W tx =
     (case GetFeeForMessage W tx of
        Inl e \<Rightarrow> Inl (wrapf ''failed to get fee estimate'' e)
      | Inr None \<Rightarrow> Inl (Err ''fee estimation returned null'')
      | Inr (Some v) \<Rightarrow> Inr v)"

definition failure :: "string \<Rightarrow> TransactionResponse" where
  \<comment> \<open>the response struct with only \<open>Success: false\<close> and \<open>Error\<close> set\<close>
  "failure msg = \<lparr>Success = False, Transaction = [], EstimatedFee = 0, RequestID = [], Error = msg\<rparr>"

text \<open>
  The tail shared by the two encoders, from the SDK instruction on: build the
  transaction, estimate the fee with the default of 5000 lamports when the estimate
  fails, serialize. The encoders hand the SDK the accounts through a slice of pointers
  filled by a \<open>range\<close> loop; the instruction here carries the accounts as the adapter
  listed them, and the transaction constructor and the serializer, which alone read them,
  are parameters.
\<close>

definition encode_tail ::
  "solana \<Rightarrow> world \<Rightarrow> InstructionData \<Rightarrow> string \<Rightarrow> u64 \<Rightarrow> string \<Rightarrow> TransactionResponse" where
  "encode_tail L W instructionData payerAddress priorityFee requestID =
     (let instruction = NewInstruction (InstructionData.ProgramID instructionData)
                          (Accounts instructionData) (Data instructionData)
      in case buildTransaction L W [instruction] payerAddress priorityFee of
           Inl e \<Rightarrow> failure (''Failed to build transaction: '' @ message e)
         | Inr tx \<Rightarrow>
            (let estimatedFee =
                   (case estimateTransactionFee W tx of Inl _ \<Rightarrow> 5000 | Inr fee \<Rightarrow> fee)
             in case MarshalBinary W tx of
                  Inl e \<Rightarrow> failure (''Failed to serialize transaction: '' @ message e)
                | Inr txData \<Rightarrow>
                    \<lparr>Success = True, Transaction = EncodeToString W txData,
                     EstimatedFee = estimatedFee, RequestID = requestID, Error = []\<rparr>))"

definition EncodeSwapTransaction ::
  "solana \<Rightarrow> (float64 \<Rightarrow> u64) \<Rightarrow> world \<Rightarrow> TransactionService \<Rightarrow> SwapRequest
     \<Rightarrow> TransactionResponse" where
  "EncodeSwapTransaction L oor W ts req0 =
     (let req = req0\<lparr>SwapRequest.ID := uuid_New W, SwapRequest.CreatedAt := time_Now W\<rparr>
      in case Get (adapterRegistry ts) (SwapRequest.DEXType req) of
           Inl _ \<Rightarrow> failure (''DEX adapter not found: '' @ SwapRequest.DEXType req)
         | Inr adapter \<Rightarrow>
            (case ValidateRequest L adapter (SwapReq req) of
               Some e \<Rightarrow> failure (''Invalid request: '' @ message e)
             | None \<Rightarrow>
                (case BuildSwapInstruction L oor adapter req of
                   Inl e \<Rightarrow> failure (''Failed to build swap instruction: '' @ message e)
                 | Inr instructionData \<Rightarrow>
                     encode_tail L W instructionData (SwapRequest.UserWallet req)
                       (SwapRequest.PriorityFee req) (SwapRequest.ID req))))"

definition EncodeLiquidityTransaction ::
  "solana \<Rightarrow> world \<Rightarrow> TransactionService \<Rightarrow> LiquidityRequest \<Rightarrow> TransactionResponse" where
  "EncodeLiquidityTransaction L W ts req0 =
     (let req = req0\<lparr>LiquidityRequest.ID := uuid_New W,
                     LiquidityRequest.CreatedAt := time_Now W\<rparr>
      in case Get (adapterRegistry ts) (LiquidityRequest.DEXType req) of
           Inl _ \<Rightarrow> failure (''DEX adapter not found: '' @ LiquidityRequest.DEXType req)
         | Inr adapter \<Rightarrow>
            (case ValidateRequest L adapter (LiquidityReq req) of
               Some e \<Rightarrow> failure (''Invalid request: '' @ message e)
             | None \<Rightarrow>
                (case BuildLiquidityInstruction L adapter req of
                   Inl e \<Rightarrow> failure (''Failed to build liquidity instruction: '' @ message e)
                 | Inr instructionData \<Rightarrow>
                     encode_tail L W instructionData (LiquidityRequest.UserWallet req)
                       (LiquidityRequest.PriorityFee req) (LiquidityRequest.ID req))))"


section \<open>Outcomes of one attempt\<close>

text \<open>
  An attempt fails when \<open>client.Do\<close> returns an error (a transport failure) or a response
  with a status of 500 or more; it settles the call when it returns, without error, a
  response with a status below 500 (a success or a client error).
\<close>

definition attempt_fails :: "do_result \<Rightarrow> bool" where
  "attempt_fails r \<longleftrightarrow>
     (case do_err r of
        Some e \<Rightarrow> True
      | None \<Rightarrow> (case do_resp r of Some rsp \<Rightarrow> 500 \<le> StatusCode rsp | None \<Rightarrow> False))"

definition attempt_settles :: "do_result \<Rightarrow> bool" where
  "attempt_settles r \<longleftrightarrow>
     (case do_err r of
        Some e \<Rightarrow> False
      | None \<Rightarrow> (case do_resp r of Some rsp \<Rightarrow> StatusCode rsp < 500 | None \<Rightarrow> False))"

section \<open>What the start-up loop does with a configuration entry\<close>

text \<open>
  \<open>registered L e a\<close>: the body of the loop of \<open>NewTransactionService\<close> registers the
  adapter \<open>a\<close> for the entry \<open>e\<close>. \<open>skipped L e\<close>: the entry is disabled, or its name is
  none of the three known ones, or the constructor for its name returns an error.
\<close>

definition registered :: "solana \<Rightarrow> DEXConfig \<Rightarrow> DEXAdapter \<Rightarrow> bool" where
  "registered L e a \<longleftrightarrow>
     Enabled e \<and>
     (Name e = ''raydium'' \<and> NewRaydiumAdapter L e = Inr a
      \<or> Name e = ''pumpfun'' \<and> NewPumpfunAdapter L e = Inr a
      \<or> Name e = ''pumpswap'' \<and> NewPumpSwapAdapter L e = Inr a)"

definition skipped :: "solana \<Rightarrow> DEXConfig \<Rightarrow> bool" where
  "skipped L e \<longleftrightarrow>
     \<not> Enabled e
     \<or> Name e \<notin> {''raydium'', ''pumpfun'', ''pumpswap''}
     \<or> Name e = ''raydium'' \<and> isl (NewRaydiumAdapter L e)
     \<or> Name e = ''pumpfun'' \<and> isl (NewPumpfunAdapter L e)
     \<or> Name e = ''pumpswap'' \<and> isl (NewPumpSwapAdapter L e)"

section \<open>The specification's formula for the minimum amount out\<close>

text \<open>
  This definition follows the words of the specification, not the code:
  \<open>floor(amountOut \<times> (1 \<minus> slippage))\<close> over the rationals, with no rounding before the
  floor. It is what \<open>calculateMinAmountOut\<close> is compared with. \<open>dyadic m e\<close> is the number a
  finite \<open>float64\<close> \<open>Finite m e\<close> stands for.
\<close>

definition spec_minAmountOut :: "int \<Rightarrow> rat \<Rightarrow> int" where
  "spec_minAmountOut amountOut slippage = \<lfloor>of_int amountOut * (1 - slippage)\<rfloor>"

definition dyadic :: "int \<Rightarrow> int \<Rightarrow> rat" where
  "dyadic m e = (if 0 \<le> e then of_int (m * 2 ^ nat e) else of_int m / of_int (2 ^ nat (- e)))"

text \<open>\<open>dyadic_le m e b\<close>: the number \<open>m * 2^e\<close> is at most the integer \<open>b\<close>.\<close>

definition dyadic_le :: "int \<Rightarrow> int \<Rightarrow> int \<Rightarrow> bool" where
  "dyadic_le m e b \<longleftrightarrow> (if 0 \<le> e then m * 2 ^ nat e \<le> b else m \<le> b * 2 ^ nat (- e))"

section \<open>A concrete SDK and the inputs of the test suite\<close>

text \<open>
  To run the model on the requests of \<open>tests/adapters_test.go\<close> the SDK parameter needs
  an instance. Base58 is implemented as the SDK does (leading \<open>1\<close>s are zero bytes, the
  rest is the big-endian number, a key has 32 bytes). The two address derivations hash
  with SHA-256 and test for the curve in the SDK; they are replaced by a function that
  mixes the seeds into the program id position by position. Nothing proved about the
  adapters for every SDK depends on this instance.
\<close>

definition b58_alphabet :: string where
  "b58_alphabet = ''123456789ABCDEFGHJKLMNPQRSTUVWXYZabcdefghijkmnopqrstuvwxyz''"

fun index_of :: "'a \<Rightarrow> 'a list \<Rightarrow> nat option" where
  "index_of x [] = None"
| "index_of x (y # ys) = (if x = y then Some 0 else map_option Suc (index_of x ys))"

fun b58_value :: "int \<Rightarrow> string \<Rightarrow> int option" where
  "b58_value acc [] = Some acc"
| "b58_value acc (c # cs) =
     (case index_of c b58_alphabet of
        None \<Rightarrow> None
      | Some d \<Rightarrow> b58_value (acc * 58 + int d) cs)"

function be_bytes :: "int \<Rightarrow> byte list" where
  "be_bytes n = (if n \<le> 0 then [] else be_bytes (n div 256) @ [word_of_int (n mod 256)])"
  by pat_completeness auto
termination
  by (relation "measure nat") auto

declare be_bytes.simps [simp del]

fun be_value :: "int \<Rightarrow> byte list \<Rightarrow> int" where
  "be_value acc [] = acc"
| "be_value acc (b # bs) = be_value (acc * 256 + uint b) bs"

function b58_digits :: "int \<Rightarrow> string" where
  "b58_digits n =
     (if n \<le> 0 then [] else b58_digits (n div 58) @ [b58_alphabet ! nat (n mod 58)])"
  by pat_completeness auto
termination
  by (relation "measure nat") auto

declare b58_digits.simps [simp del]

definition base58_decode :: "string \<Rightarrow> byte list option" where
  "base58_decode s =
     (if s = [] then None
      else case b58_value 0 s of
             None \<Rightarrow> None
           | Some n \<Rightarrow>
               Some (replicate (length (takeWhile (\<lambda>c. c = CHR ''1'') s)) 0 @ be_bytes n))"

definition base58_encode :: "byte list \<Rightarrow> string" where
  "base58_encode bs =
     replicate (length (takeWhile (\<lambda>b. b = 0) bs)) CHR ''1'' @ b58_digits (be_value 0 bs)"

definition from_base58 :: "string \<Rightarrow> error + PublicKey" where
  "from_base58 s =
     (case base58_decode s of
        None \<Rightarrow> Inl (Err ''decode: invalid base58 digit'')
      | Some bs \<Rightarrow>
          if length bs \<noteq> 32
          then Inl (Err (''invalid length, expected 32, got '' @ itoa (int (length bs))))
          else Inr bs)"

definition mix :: "byte list \<Rightarrow> byte list \<Rightarrow> byte list" where
  "mix acc seed = map2 (\<lambda>a x. 31 * a + x) acc (take 32 (seed @ replicate 32 0))"

definition derive :: "byte list list \<Rightarrow> PublicKey \<Rightarrow> error + PublicKey" where
  "derive seeds programID = Inr (foldl mix programID seeds)"

definition token_program :: PublicKey where
  "token_program = [6, 221, 246, 225, 215, 101, 161, 147, 217, 203, 225, 70, 206, 235, 121, 172,
                    28, 180, 133, 237, 95, 91, 55, 145, 58, 140, 245, 133, 126, 255, 0, 169]"

definition sdk :: solana where
  "sdk = \<lparr>PublicKeyFromBase58 = from_base58,
          FindProgramAddress = derive,
          FindAssociatedTokenAddress = (\<lambda>wallet mint. derive [wallet, token_program, mint]
                                                       (replicate 32 140)),
          String = base58_encode,
          TokenProgramID = token_program,
          SystemProgramID = replicate 32 0\<rparr>"

definition wallet_key :: PublicKey where
  "wallet_key = replicate 31 0 @ [1]"

definition sol_key :: PublicKey where
  "sol_key = [6, 155, 136, 87, 254, 171, 129, 132, 251, 104, 127, 99, 70, 24, 192, 53,
              218, 196, 57, 220, 26, 235, 59, 85, 152, 160, 240, 0, 0, 0, 0, 1]"

definition usdc_key :: PublicKey where
  "usdc_key = [198, 250, 122, 243, 190, 219, 173, 58, 61, 101, 243, 106, 171, 201, 116, 49,
               177, 187, 228, 194, 210, 246, 224, 228, 124, 166, 2, 3, 69, 47, 93, 97]"

definition raydium_key :: PublicKey where
  "raydium_key = [75, 217, 73, 196, 54, 2, 195, 63, 32, 119, 144, 237, 22, 163, 82, 76,
                  161, 185, 151, 92, 241, 33, 162, 169, 12, 255, 236, 125, 248, 182, 138, 205]"

definition f64_0_005 :: float64 where
  \<comment> \<open>the \<open>float64\<close> nearest to 0.005, \<open>0x3F747AE147AE147B\<close>\<close>
  "f64_0_005 = Finite 5764607523034235 (- 60)"

definition validSwapReq :: SwapRequest where
  "validSwapReq =
     \<lparr>InputMint = ''So11111111111111111111111111111111111111112'',
      OutputMint = ''EPjFWdd5AufqSSqeM2qN1xzybapC8G4wEGGkZwyTDt1v'',
      AmountIn = 1000000000,
      UserWallet = ''11111111111111111111111111111112'',
      Slippage = f64_0_005,
      PriorityFee = 0,
      DEXType = ''raydium'',
      ID = [],
      CreatedAt = 0\<rparr>"

definition validLiquidityReq :: LiquidityRequest where
  "validLiquidityReq =
     \<lparr>TokenAMint = ''So11111111111111111111111111111111111111112'',
      TokenBMint = ''EPjFWdd5AufqSSqeM2qN1xzybapC8G4wEGGkZwyTDt1v'',
      AmountA = 1000000000,
      AmountB = 1000000,
      LiquidityRequest.UserWallet = ''11111111111111111111111111111112'',
      LiquidityRequest.Slippage = f64_0_005,
      LiquidityRequest.PriorityFee = 0,
      Operation = ''add'',
      LiquidityRequest.DEXType = ''raydium'',
      LiquidityRequest.ID = [],
      LiquidityRequest.CreatedAt = 0\<rparr>"

definition raydiumConfig :: DEXConfig where
  "raydiumConfig =
     \<lparr>Name = ''raydium'',
      ProgramID = ''675kPX9MHTjS2zt1qfr1NYHuzeLXfQM9H24wFSUt1Mp8'',
      RouterAddress = [],
      Endpoints = Map.empty,
      Enabled = True,
      Timeout = 30,
      RetryCount = 3\<rparr>"


definition pumpfun_key :: PublicKey where
  "pumpfun_key = [1, 86, 224, 246, 147, 102, 90, 207, 68, 219, 21, 104, 191, 23, 91, 170,
                  81, 137, 203, 151, 245, 210, 255, 59, 101, 93, 43, 182, 253, 109, 24, 176]"

definition pumpswap_key :: PublicKey where
  "pumpswap_key = [5, 192, 28, 6, 228, 111, 65, 144, 199, 117, 94, 44, 37, 237, 12, 214,
                   178, 4, 68, 30, 29, 18, 139, 121, 223, 97, 24, 41, 39, 135, 97, 60]"

definition router_key :: PublicKey where
  "router_key = [5, 192, 28, 6, 235, 113, 71, 170, 109, 171, 177, 176, 105, 66, 171, 231,
                 184, 74, 217, 100, 101, 130, 45, 85, 47, 86, 122, 101, 0, 0, 0, 0]"

definition pumpfunConfig :: DEXConfig where
  "pumpfunConfig =
     \<lparr>Name = ''pumpfun'',
      ProgramID = ''6EF8rrecthR5Dkzon8Nwu78hRvfCKubJ14M5uBEwF6P'',
      RouterAddress = [],
      Endpoints = Map.empty,
      Enabled = True,
      Timeout = 30,
      RetryCount = 3\<rparr>"

definition pumpswapConfig :: DEXConfig where
  "pumpswapConfig =
     \<lparr>Name = ''pumpswap'',
      ProgramID = ''PSwapMdSai8tjrEXcxFeQth87xC4rRsa4VA5mhGhXkP'',
      RouterAddress = ''PSwapRouterV1111111111111111111111111111111'',
      Endpoints = Map.empty,
      Enabled = True,
      Timeout = 30,
      RetryCount = 3\<rparr>"

definition invalidConfig :: DEXConfig where
  \<comment> \<open>the configuration of \<open>TestInvalidAdapterConfigs\<close>, under the name of a known DEX\<close>
  "invalidConfig =
     \<lparr>Name = ''pumpfun'',
      ProgramID = ''invalid-program-id'',
      RouterAddress = [],
      Endpoints = Map.empty,
      Enabled = True,
      Timeout = 0,
      RetryCount = 0\<rparr>"

definition raydiumAdapter :: DEXAdapter where
  "raydiumAdapter = RaydiumAdapter (NewBaseAdapter ''raydium'' raydiumConfig) raydium_key"

definition pumpfunAdapter :: DEXAdapter where
  "pumpfunAdapter = PumpfunAdapter (NewBaseAdapter ''pumpfun'' pumpfunConfig) pumpfun_key"

definition pumpswapAdapter :: DEXAdapter where
  "pumpswapAdapter =
     PumpSwapAdapter (NewBaseAdapter ''pumpswap'' pumpswapConfig) pumpswap_key router_key"

definition no_oor :: "float64 \<Rightarrow> u64" where
  \<comment> \<open>a platform whose out-of-range conversions yield 0\<close>
  "no_oor x = 0"

text \<open>Standard base64 with padding, as \<open>base64.StdEncoding\<close> writes it.\<close>

definition b64_alphabet :: string where
  "b64_alphabet = ''ABCDEFGHIJKLMNOPQRSTUVWXYZabcdefghijklmnopqrstuvwxyz0123456789+/''"

fun base64_encode :: "byte list \<Rightarrow> string" where
  "base64_encode (a # b # c # rest) =
     (let n = unat a * 65536 + unat b * 256 + unat c
      in [b64_alphabet ! (n div 262144), b64_alphabet ! (n div 4096 mod 64),
          b64_alphabet ! (n div 64 mod 64), b64_alphabet ! (n mod 64)] @ base64_encode rest)"
| "base64_encode [a, b] =
     (let n = unat a * 65536 + unat b * 256
      in [b64_alphabet ! (n div 262144), b64_alphabet ! (n div 4096 mod 64),
          b64_alphabet ! (n div 64 mod 64), CHR ''=''])"
| "base64_encode [a] =
     (let n = unat a * 65536
      in [b64_alphabet ! (n div 262144), b64_alphabet ! (n div 4096 mod 64),
          CHR ''='', CHR ''=''])"
| "base64_encode [] = []"

text \<open>A ledger whose fee-for-message call fails while every other call succeeds.\<close>

definition fee_down :: world where
  "fee_down =
     \<lparr>uuid_New = ''6ba7b810-9dad-41d1-80b4-00c04fd430c8'',
      time_Now = 0,
      GetRecentBlockhash = Inr (replicate 32 7),
      NewTransaction = (\<lambda>instructions blockhash payer.
         Inr \<lparr>Instructions = instructions, RecentBlockhash = blockhash, FeePayer = payer\<rparr>),
      GetFeeForMessage = (\<lambda>tx. Inl (Err ''rpc unavailable'')),
      MarshalBinary = (\<lambda>tx. Inr (FeePayer tx @ RecentBlockhash tx
                                     @ concat (map Data (Instructions tx)))),
      EncodeToString = base64_encode,
      MustPublicKeyFromBase58 = (\<lambda>s. projr (from_base58 s))\<rparr>"

definition testConfig :: Config where
  "testConfig =
     \<lparr>RPCURL = ''https://api.mainnet-beta.solana.com'',
      DEXes = [raydiumConfig, pumpfunConfig, pumpswapConfig]\<rparr>"

definition partlyBrokenConfig :: Config where
  "partlyBrokenConfig =
     \<lparr>RPCURL = ''https://api.mainnet-beta.solana.com'',
      DEXes = [raydiumConfig, invalidConfig, pumpswapConfig\<lparr>Enabled := False\<rparr>,
               raydiumConfig\<lparr>Name := ''orca''\<rparr>]\<rparr>"

text \<open>Two servers: one answers 503 twice and then 200, the other refuses every connection.\<close>

definition flaky :: http where
  "flaky =
     \<lparr>Marshal = None,
      NewRequestWithContext = None,
      Do = (\<lambda>i. if i < 2 then Do_result (Some \<lparr>StatusCode = 503, Body = []\<rparr>) None
                else Do_result (Some \<lparr>StatusCode = 200, Body = ''{}''\<rparr>) None),
      Decode = (\<lambda>r. None)\<rparr>"

definition unreachable :: http where
  "unreachable =
     \<lparr>Marshal = None,
      NewRequestWithContext = None,
      Do = (\<lambda>i. Do_result None (Some (Err ''connection refused''))),
      Decode = (\<lambda>r. None)\<rparr>"

section \<open>Byte layout of the payloads\<close>

lemma length_PutUint64 [simp]: "length (PutUint64 v) = 8"
  by (simp add: PutUint64_def)

lemma le_step:
  fixes w :: u64
  shows "ucast (ucast w :: byte) OR push_bit 8 (take_bit n (drop_bit 8 w)) = take_bit (8 + n) w"
  by (rule bit_word_eqI) (auto simp: bit_simps)

lemma le_fold:
  "foldr (\<lambda>x acc. ucast x OR push_bit 8 acc)
     (map (\<lambda>i. ucast (drop_bit (8 * i) v) :: byte) [j..<j + k]) (0 :: u64)
   = take_bit (8 * k) (drop_bit (8 * j) v)"
proof (induction k arbitrary: j)
  case 0
  show ?case by simp
next
  case (Suc k)
  have "[j..<j + Suc k] = j # [Suc j..<Suc j + k]"
    by (simp add: upt_rec)
  then show ?case
    using Suc.IH [of "Suc j"] le_step [of "drop_bit (8 * j) v" "8 * k"]
    by (simp add: add.commute)
qed

lemma Uint64_PutUint64: "Uint64 (PutUint64 v @ rest) = v"
  using le_fold [of v 0 8] by (simp add: Uint64_def PutUint64_def take_bit_word_eq_self)

lemma Uint64_PutUint64_only: "Uint64 (PutUint64 v) = v"
  using Uint64_PutUint64 [of v "[]"] by simp

lemma swap_payload_17:
  fixes a b :: "byte list"
  assumes "length a = 8" "length b = 8"
  shows "put_at 9 b (put_at (Suc 0) a ((replicate 17 0)[0 := op])) = op # a @ b"
  using assms by (simp add: put_at_def numeral_eq_Suc)

lemma swap_payload_18:
  fixes a b :: "byte list"
  assumes "length a = 8" "length b = 8"
  shows "(put_at 9 b (put_at (Suc 0) a ((replicate 18 0)[0 := op])))[17 := d] = op # a @ b @ [d]"
  using assms by (simp add: put_at_def numeral_eq_Suc list_update_append nth_append)

lemma Pumpfun_payload_eq:
  "Pumpfun_buildSwapInstructionData oor req =
     (if InputMint req = SOL_MINT then 6 else 7)
       # PutUint64 (AmountIn req)
       @ PutUint64 (calculateMinAmountOut oor (AmountIn req) (SwapRequest.Slippage req))
       @ [if InputMint req = SOL_MINT then 0 else 1]"
  by (simp add: Pumpfun_buildSwapInstructionData_def Let_def swap_payload_18)

lemma Raydium_payload_eq:
  "Raydium_buildSwapInstructionData oor req =
     9 # PutUint64 (AmountIn req)
       @ PutUint64 (calculateMinAmountOut oor (AmountIn req) (SwapRequest.Slippage req))"
  by (simp add: Raydium_buildSwapInstructionData_def Let_def swap_payload_17)

lemma bindE_Inr [simp]: "bindE r f = Inr v \<longleftrightarrow> (\<exists>x. r = Inr x \<and> f x = Inr v)"
  by (cases r) (simp_all add: bindE_def)

lemma wrapE_Inr [simp]: "wrapE p r = Inr v \<longleftrightarrow> r = Inr v"
  by (cases r) (simp_all add: wrapE_def)


section \<open>Evaluation at the inputs of the test suite\<close>

lemma from_base58_sol: "from_base58 ''So11111111111111111111111111111111111111112'' = Inr sol_key"
  by code_simp

lemma from_base58_usdc: "from_base58 ''EPjFWdd5AufqSSqeM2qN1xzybapC8G4wEGGkZwyTDt1v'' = Inr usdc_key"
  by code_simp

lemma from_base58_wallet: "from_base58 ''11111111111111111111111111111112'' = Inr wallet_key"
  by code_simp

lemma from_base58_raydium: "from_base58 ''675kPX9MHTjS2zt1qfr1NYHuzeLXfQM9H24wFSUt1Mp8'' = Inr raydium_key"
  by code_simp

lemma from_base58_pumpfun:
  "from_base58 ''6EF8rrecthR5Dkzon8Nwu78hRvfCKubJ14M5uBEwF6P'' = Inr pumpfun_key"
  by code_simp

lemma from_base58_pumpswap:
  "from_base58 ''PSwapMdSai8tjrEXcxFeQth87xC4rRsa4VA5mhGhXkP'' = Inr pumpswap_key"
  by code_simp

lemma from_base58_router:
  "from_base58 ''PSwapRouterV1111111111111111111111111111111'' = Inr router_key"
  by code_simp

lemma from_base58_invalid: "isl (from_base58 ''invalid-program-id'')"
  by code_simp

lemmas sdk_eval = sdk_def from_base58_sol from_base58_usdc from_base58_wallet from_base58_raydium
  from_base58_pumpfun from_base58_pumpswap from_base58_router
  derive_def bindE_def wrapE_def ValidateSwapRequest_def validSwapReq_def


lemma calc_scenario: "calculateMinAmountOut oor 1000000000 f64_0_005 = 995000000"
  by code_simp


lemma spec_quote: "spec_minAmountOut 50000000 (dyadic 5764607523034235 (- 60)) = 49749999"
  by code_simp

lemma spec_quote2: "spec_minAmountOut 50000000 (5 / 1000) = 49750000"
  by (simp add: spec_minAmountOut_def)

lemma f64_le_0_005: "\<not> f64_lt f64_0_005 f64_zero" "\<not> f64_lt f64_one f64_0_005"
  by (simp_all add: f64_0_005_def f64_zero_def f64_one_def)

lemmas liq_eval = validateLiquidityRequest_def validLiquidityReq_def f64_le_0_005

lemmas config_eval = raydiumConfig_def pumpfunConfig_def pumpswapConfig_def invalidConfig_def
  NewRaydiumAdapter_def NewPumpfunAdapter_def NewPumpSwapAdapter_def

lemma Raydium_swap_builds:
  "\<exists>instr. Raydium_BuildSwapInstruction sdk oor programID validSwapReq = Inr instr"
  by (simp add: Raydium_BuildSwapInstruction_def sdk_eval Let_def)

lemma Pumpfun_swap_builds:
  "\<exists>instr. Pumpfun_BuildSwapInstruction sdk oor programID validSwapReq = Inr instr"
  by (simp add: Pumpfun_BuildSwapInstruction_def deriveBondingCurveAddress_def
        deriveBondingCurveTokenAccount_def sdk_eval Let_def)

lemma PumpSwap_swap_builds:
  "\<exists>instr. PumpSwap_BuildSwapInstruction sdk oor programID routerAddress validSwapReq = Inr instr"
  by (simp add: PumpSwap_BuildSwapInstruction_def findPoolAddress_def sdk_eval Let_def)

lemma Raydium_liquidity_builds:
  "\<exists>instr. Raydium_BuildLiquidityInstruction sdk programID validLiquidityReq = Inr instr"
  by (simp add: Raydium_BuildLiquidityInstruction_def sdk_eval liq_eval Let_def)

lemma PumpSwap_liquidity_builds:
  "\<exists>instr. PumpSwap_BuildLiquidityInstruction sdk programID validLiquidityReq = Inr instr"
  by (simp add: PumpSwap_BuildLiquidityInstruction_def findOrCreatePoolAddress_def
        findPoolAddress_def deriveLPMintAddress_def sdk_eval liq_eval Let_def)

section \<open>Pumpfun swap payload\<close>

text \<open>
  C8. Whenever the Pumpfun adapter returns an instruction for a swap request, its payload
  has exactly 18 bytes: byte 0 is the opcode, 6 when the input mint is the SOL mint and 7
  otherwise; bytes 1..9 are \<open>AmountIn\<close> and bytes 9..17 the minimum amount out, each as a
  little-endian \<open>uint64\<close>; byte 17 is the direction, 0 exactly when the opcode is 6 and 1
  exactly when it is 7.
\<close>

theorem Pumpfun_swap_payload:
  assumes "BuildSwapInstruction L oor (PumpfunAdapter b programID) req = Inr instr"
  shows "length (Data instr) = 18
    \<and> Data instr ! 0 = (if InputMint req = SOL_MINT then 6 else 7)
    \<and> take 8 (drop 1 (Data instr)) = PutUint64 (AmountIn req)
    \<and> Uint64 (drop 1 (Data instr)) = AmountIn req
    \<and> take 8 (drop 9 (Data instr))
        = PutUint64 (calculateMinAmountOut oor (AmountIn req) (SwapRequest.Slippage req))
    \<and> Uint64 (drop 9 (Data instr))
        = calculateMinAmountOut oor (AmountIn req) (SwapRequest.Slippage req)
    \<and> Data instr ! 17 = (if InputMint req = SOL_MINT then 0 else 1)
    \<and> (Data instr ! 17 = 0) = (Data instr ! 0 = 6)
    \<and> (Data instr ! 17 = 1) = (Data instr ! 0 = 7)"
proof -
  from assms have d: "Data instr = Pumpfun_buildSwapInstructionData oor req"
    by (auto simp: Pumpfun_BuildSwapInstruction_def createInstruction_def Let_def
             split: option.splits)
  show ?thesis
    unfolding d Pumpfun_payload_eq
    by (simp add: nth_append Uint64_PutUint64 del: upt_Suc)
qed

theorem Pumpfun_swap_payload_witness:
  "\<not> isl (BuildSwapInstruction sdk no_oor pumpfunAdapter validSwapReq)
   \<and> length (Data (projr (BuildSwapInstruction sdk no_oor pumpfunAdapter validSwapReq))) = 18
   \<and> Data (projr (BuildSwapInstruction sdk no_oor pumpfunAdapter validSwapReq)) ! 0 = 6
   \<and> Uint64 (drop 1 (Data (projr (BuildSwapInstruction sdk no_oor pumpfunAdapter validSwapReq))))
       = 1000000000
   \<and> Uint64 (drop 9 (Data (projr (BuildSwapInstruction sdk no_oor pumpfunAdapter validSwapReq))))
       = 995000000
   \<and> Data (projr (BuildSwapInstruction sdk no_oor pumpfunAdapter validSwapReq)) ! 17 = 0"
proof -
  obtain instr where
    e: "BuildSwapInstruction sdk no_oor (PumpfunAdapter (NewBaseAdapter ''pumpfun'' pumpfunConfig)
          pumpfun_key) validSwapReq = Inr instr"
    using Pumpfun_swap_builds by auto
  have "InputMint validSwapReq = SOL_MINT" "AmountIn validSwapReq = 1000000000"
    "SwapRequest.Slippage validSwapReq = f64_0_005"
    by (simp_all add: validSwapReq_def SOL_MINT_def)
  with Pumpfun_swap_payload [OF e] e show ?thesis
    by (simp add: pumpfunAdapter_def calc_scenario)
qed


section \<open>Raydium swap instruction\<close>

text \<open>
  C1, as amended. For every Raydium swap request that passes validation and whose three
  keys and two associated token accounts resolve, \<open>BuildSwapInstruction\<close> returns an
  instruction whose payload has exactly 17 bytes, whose bytes 1..9 decode little-endian to
  \<open>AmountIn\<close>, whose bytes 9..17 decode to \<open>calculateMinAmountOut(AmountIn, Slippage)\<close> (the
  slippage factor applied to the request's own input amount; no quote takes part), and
  whose account list has 6 entries, the first a signer and the user wallet.
\<close>

theorem Raydium_swap_instruction:
  assumes "ValidateSwapRequest req = None"
    and "PublicKeyFromBase58 L (SwapRequest.UserWallet req) = Inr userWallet"
    and "PublicKeyFromBase58 L (InputMint req) = Inr inputMint"
    and "PublicKeyFromBase58 L (OutputMint req) = Inr outputMint"
    and "FindAssociatedTokenAddress L userWallet inputMint = Inr inAcc"
    and "FindAssociatedTokenAddress L userWallet outputMint = Inr outAcc"
  shows "\<exists>instr. BuildSwapInstruction L oor (RaydiumAdapter b programID) req = Inr instr
    \<and> length (Data instr) = 17
    \<and> take 8 (drop 1 (Data instr)) = PutUint64 (AmountIn req)
    \<and> Uint64 (drop 1 (Data instr)) = AmountIn req
    \<and> take 8 (drop 9 (Data instr))
        = PutUint64 (calculateMinAmountOut oor (AmountIn req) (SwapRequest.Slippage req))
    \<and> Uint64 (drop 9 (Data instr))
        = calculateMinAmountOut oor (AmountIn req) (SwapRequest.Slippage req)
    \<and> length (Accounts instr) = 6
    \<and> IsSigner (Accounts instr ! 0)
    \<and> PublicKey (Accounts instr ! 0) = userWallet"
  using assms
  by (simp add: Raydium_BuildSwapInstruction_def createInstruction_def Let_def bindE_def wrapE_def
        Raydium_payload_eq nth_append Uint64_PutUint64 Uint64_PutUint64_only del: upt_Suc)

theorem Raydium_swap_instruction_witness:
  "ValidateSwapRequest validSwapReq = None
   \<and> PublicKeyFromBase58 sdk (SwapRequest.UserWallet validSwapReq) = Inr wallet_key
   \<and> PublicKeyFromBase58 sdk (InputMint validSwapReq) = Inr sol_key
   \<and> PublicKeyFromBase58 sdk (OutputMint validSwapReq) = Inr usdc_key
   \<and> \<not> isl (FindAssociatedTokenAddress sdk wallet_key sol_key)
   \<and> \<not> isl (FindAssociatedTokenAddress sdk wallet_key usdc_key)
   \<and> \<not> isl (BuildSwapInstruction sdk no_oor raydiumAdapter validSwapReq)
   \<and> length (Data (projr (BuildSwapInstruction sdk no_oor raydiumAdapter validSwapReq))) = 17
   \<and> Uint64 (drop 1 (Data (projr (BuildSwapInstruction sdk no_oor raydiumAdapter validSwapReq))))
       = 1000000000
   \<and> Uint64 (drop 9 (Data (projr (BuildSwapInstruction sdk no_oor raydiumAdapter validSwapReq))))
       = 995000000
   \<and> length (Accounts (projr (BuildSwapInstruction sdk no_oor raydiumAdapter validSwapReq))) = 6
   \<and> IsSigner (Accounts (projr (BuildSwapInstruction sdk no_oor raydiumAdapter validSwapReq)) ! 0)"
proof -
  have h: "ValidateSwapRequest validSwapReq = None"
    "PublicKeyFromBase58 sdk (SwapRequest.UserWallet validSwapReq) = Inr wallet_key"
    "PublicKeyFromBase58 sdk (InputMint validSwapReq) = Inr sol_key"
    "PublicKeyFromBase58 sdk (OutputMint validSwapReq) = Inr usdc_key"
    "FindAssociatedTokenAddress sdk wallet_key sol_key
       = Inr (foldl mix (replicate 32 140) [wallet_key, token_program, sol_key])"
    "FindAssociatedTokenAddress sdk wallet_key usdc_key
       = Inr (foldl mix (replicate 32 140) [wallet_key, token_program, usdc_key])"
    by (simp_all add: sdk_eval)
  have v: "AmountIn validSwapReq = 1000000000"
    "SwapRequest.Slippage validSwapReq = f64_0_005"
    by (simp_all add: validSwapReq_def)
  from Raydium_swap_instruction [OF h, of no_oor "NewBaseAdapter ''raydium'' raydiumConfig"
      raydium_key]
  obtain instr where
    "BuildSwapInstruction sdk no_oor raydiumAdapter validSwapReq = Inr instr"
    "length (Data instr) = 17" "Uint64 (drop 1 (Data instr)) = AmountIn validSwapReq"
    "Uint64 (drop 9 (Data instr))
        = calculateMinAmountOut no_oor (AmountIn validSwapReq) (SwapRequest.Slippage validSwapReq)"
    "length (Accounts instr) = 6" "IsSigner (Accounts instr ! 0)"
    unfolding raydiumAdapter_def by blast
  then show ?thesis
    using h by (simp add: v calc_scenario)
qed

text \<open>
  C1, as stated, fails. For the request of the scenario (1_000_000_000 in, slippage 0.005)
  bytes 9..17 decode to 995_000_000, which is \<open>AmountIn\<close> scaled by 0.995. For the quote
  of 50_000_000 that the API examples show for this request, the claimed value
  \<open>floor(quotedOut \<times> (1 \<minus> slippage))\<close> is 49_749_999 with the \<open>float64\<close> nearest to 0.005
  and 49_750_000 with the decimal 0.005: neither is what the payload holds.
\<close>

theorem Raydium_swap_min_out_ignores_quote:
  "\<not> isl (BuildSwapInstruction sdk no_oor raydiumAdapter validSwapReq)
   \<and> SwapRequest.Slippage validSwapReq = Finite 5764607523034235 (- 60)
   \<and> Uint64 (drop 9 (Data (projr (BuildSwapInstruction sdk no_oor raydiumAdapter validSwapReq))))
       = 995000000
   \<and> spec_minAmountOut 50000000 (dyadic 5764607523034235 (- 60)) = 49749999
   \<and> spec_minAmountOut 50000000 (5 / 1000) = 49750000"
proof -
  obtain instr where
    e: "Raydium_BuildSwapInstruction sdk no_oor raydium_key validSwapReq = Inr instr"
    using Raydium_swap_builds by blast
  then have "Data instr = Raydium_buildSwapInstructionData no_oor validSwapReq"
    by (auto simp: Raydium_BuildSwapInstruction_def createInstruction_def Let_def
        split: option.splits)
  moreover have "AmountIn validSwapReq = 1000000000"
    "SwapRequest.Slippage validSwapReq = f64_0_005"
    by (simp_all add: validSwapReq_def)
  ultimately show ?thesis
    using e spec_quote spec_quote2
    by (simp add: raydiumAdapter_def Raydium_payload_eq Uint64_PutUint64_only calc_scenario
          flip: f64_0_005_def)
qed

section \<open>Swap validation\<close>

text \<open>
  C2, evaluated at failing inputs. The Raydium adapter's \<open>ValidateRequest\<close> accepts the
  swap request of the test case "invalid slippage" (slippage 1.5) and the one of
  "invalid input mint format" (a mint the SDK rejects), although the test suite expects an
  error for both; the liquidity path of the same adapter rejects the slippage 1.5.
\<close>

theorem swap_validation_misses_slippage_and_key_format:
  "ValidateRequest sdk raydiumAdapter
     (SwapReq (validSwapReq\<lparr>SwapRequest.Slippage := Finite 3 (- 1)\<rparr>)) = None
   \<and> f64_lt f64_one (Finite 3 (- 1))
   \<and> ValidateRequest sdk raydiumAdapter
     (SwapReq (validSwapReq\<lparr>InputMint := ''invalid-mint-address''\<rparr>)) = None
   \<and> isl (PublicKeyFromBase58 sdk ''invalid-mint-address'')
   \<and> ValidateRequest sdk raydiumAdapter
     (LiquidityReq (validLiquidityReq\<lparr>LiquidityRequest.Slippage := Finite 3 (- 1)\<rparr>))
       = Some (Err ''slippage must be between 0 and 1'')"
proof -
  have "isl (from_base58 ''invalid-mint-address'')"
    by code_simp
  then show ?thesis
    by (simp add: raydiumAdapter_def Raydium_ValidateRequest_def ValidateSwapRequest_def
        validSwapReq_def validateLiquidityRequest_def validLiquidityReq_def sdk_def
        f64_one_def f64_zero_def)
qed


section \<open>Pumpfun and liquidity\<close>

text \<open>
  C4. For every liquidity request the Pumpfun adapter's \<open>BuildLiquidityInstruction\<close>
  returns no instruction and an error, and its \<open>ValidateRequest\<close> returns an error; both
  messages name Pumpfun and say that it does not support liquidity operations. No
  instruction is ever produced, and a liquidity transaction routed to the Pumpfun adapter
  is answered with a failure carrying the validation message.
\<close>

theorem Pumpfun_liquidity_unsupported:
  "BuildLiquidityInstruction L (PumpfunAdapter b programID) req
     = Inl (Err ''pumpfun does not support traditional liquidity operations'')
   \<and> ValidateRequest L (PumpfunAdapter b programID) (LiquidityReq req)
     = Some (Err ''pumpfun does not support liquidity operations'')
   \<and> sublist ''pumpfun'' ''pumpfun does not support traditional liquidity operations''
   \<and> sublist ''does not support'' ''pumpfun does not support traditional liquidity operations''
   \<and> sublist ''liquidity'' ''pumpfun does not support traditional liquidity operations''
   \<and> sublist ''pumpfun'' ''pumpfun does not support liquidity operations''
   \<and> sublist ''does not support'' ''pumpfun does not support liquidity operations''
   \<and> sublist ''liquidity'' ''pumpfun does not support liquidity operations''
   \<and> (\<forall>instr. BuildLiquidityInstruction L (PumpfunAdapter b programID) req \<noteq> Inr instr)
   \<and> (Get (adapterRegistry ts) (LiquidityRequest.DEXType req) = Inr (PumpfunAdapter b programID)
        \<longrightarrow> EncodeLiquidityTransaction L W ts req
            = failure ''Invalid request: pumpfun does not support liquidity operations'')"
  by (simp add: Pumpfun_BuildLiquidityInstruction_def Pumpfun_ValidateRequest_def
        EncodeLiquidityTransaction_def Let_def sublist_code)

theorem Pumpfun_liquidity_unsupported_witness:
  "Get (adapterRegistry (NewTransactionService sdk \<lparr>RPCURL = [], DEXes = [pumpfunConfig]\<rparr>))
       (LiquidityRequest.DEXType
          (validLiquidityReq\<lparr>LiquidityRequest.DEXType := ''pumpfun'', Operation := ''remove''\<rparr>))
     = Inr pumpfunAdapter
   \<and> EncodeLiquidityTransaction sdk fee_down
        (NewTransactionService sdk \<lparr>RPCURL = [], DEXes = [pumpfunConfig]\<rparr>)
        (validLiquidityReq\<lparr>LiquidityRequest.DEXType := ''pumpfun'', Operation := ''remove''\<rparr>)
     = failure ''Invalid request: pumpfun does not support liquidity operations''"
proof -
  have g: "Get (adapterRegistry (NewTransactionService sdk \<lparr>RPCURL = [], DEXes = [pumpfunConfig]\<rparr>))
       (LiquidityRequest.DEXType
          (validLiquidityReq\<lparr>LiquidityRequest.DEXType := ''pumpfun'', Operation := ''remove''\<rparr>))
     = Inr (PumpfunAdapter (NewBaseAdapter ''pumpfun'' pumpfunConfig) pumpfun_key)"
    by (simp add: NewTransactionService_def NewAdapterRegistry_def Register_def Get_def
          NewPumpfunAdapter_def pumpfunConfig_def sdk_def from_base58_pumpfun)
  from Pumpfun_liquidity_unsupported [of sdk "NewBaseAdapter ''pumpfun'' pumpfunConfig" pumpfun_key
      "validLiquidityReq\<lparr>LiquidityRequest.DEXType := ''pumpfun'', Operation := ''remove''\<rparr>"
      "NewTransactionService sdk \<lparr>RPCURL = [], DEXes = [pumpfunConfig]\<rparr>" fee_down] g
  show ?thesis
    by (simp add: pumpfunAdapter_def)
qed

section \<open>The signer of an instruction\<close>

lemma builder_signer:
  assumes "accs = \<lparr>PublicKey = w, IsSigner = True, IsWritable = False\<rparr> # rest"
    and "list_all (\<lambda>m. \<not> IsSigner m) rest"
  shows "accs \<noteq> [] \<and> PublicKey (accs ! 0) = w \<and> IsSigner (accs ! 0) \<and> \<not> IsWritable (accs ! 0)
         \<and> map IsSigner accs = True # replicate (length accs - 1) False"
  using assms by (auto simp: list_all_iff map_replicate_const [symmetric] intro!: map_idI map_cong)

lemma swap_builders_accounts:
  assumes "BuildSwapInstruction L oor a req = Inr instr"
  shows "\<exists>w rest. PublicKeyFromBase58 L (SwapRequest.UserWallet req) = Inr w
      \<and> Accounts instr = \<lparr>PublicKey = w, IsSigner = True, IsWritable = False\<rparr> # rest
      \<and> list_all (\<lambda>m. \<not> IsSigner m) rest"
proof (cases a)
  case (RaydiumAdapter b p)
  with assms show ?thesis
    by (auto simp: Raydium_BuildSwapInstruction_def createInstruction_def Let_def
        split: option.splits)
next
  case (PumpfunAdapter b p)
  with assms show ?thesis
    by (auto simp: Pumpfun_BuildSwapInstruction_def createInstruction_def Let_def
        split: option.splits)
next
  case (PumpSwapAdapter b p r)
  with assms show ?thesis
    by (auto simp: PumpSwap_BuildSwapInstruction_def createInstruction_def Let_def
        split: option.splits)
qed

lemma liquidity_builders_accounts:
  assumes "BuildLiquidityInstruction L a req = Inr instr"
  shows "\<exists>w rest. PublicKeyFromBase58 L (LiquidityRequest.UserWallet req) = Inr w
      \<and> Accounts instr = \<lparr>PublicKey = w, IsSigner = True, IsWritable = False\<rparr> # rest
      \<and> list_all (\<lambda>m. \<not> IsSigner m) rest"
proof (cases a)
  case (RaydiumAdapter b p)
  with assms show ?thesis
    by (auto simp: Raydium_BuildLiquidityInstruction_def createInstruction_def Let_def
        split: option.splits)
next
  case (PumpfunAdapter b p)
  with assms show ?thesis
    by (simp add: Pumpfun_BuildLiquidityInstruction_def)
next
  case (PumpSwapAdapter b p r)
  with assms show ?thesis
    by (auto simp: PumpSwap_BuildLiquidityInstruction_def createInstruction_def Let_def
        split: option.splits)
qed

text \<open>
  C9. In every instruction that \<open>BuildSwapInstruction\<close> or \<open>BuildLiquidityInstruction\<close> of
  any of the three adapters returns, the account at index 0 is the request's user wallet
  (the key its \<open>UserWallet\<close> string parses to), it is marked signer and not writable, and
  no other account is marked signer.
\<close>

theorem signer_is_the_wallet:
  "(BuildSwapInstruction L oor a sreq = Inr instr \<longrightarrow>
      Accounts instr \<noteq> []
      \<and> PublicKeyFromBase58 L (SwapRequest.UserWallet sreq) = Inr (PublicKey (Accounts instr ! 0))
      \<and> IsSigner (Accounts instr ! 0) \<and> \<not> IsWritable (Accounts instr ! 0)
      \<and> map IsSigner (Accounts instr) = True # replicate (length (Accounts instr) - 1) False)
   \<and> (BuildLiquidityInstruction L a lreq = Inr instr' \<longrightarrow>
      Accounts instr' \<noteq> []
      \<and> PublicKeyFromBase58 L (LiquidityRequest.UserWallet lreq)
          = Inr (PublicKey (Accounts instr' ! 0))
      \<and> IsSigner (Accounts instr' ! 0) \<and> \<not> IsWritable (Accounts instr' ! 0)
      \<and> map IsSigner (Accounts instr') = True # replicate (length (Accounts instr') - 1) False)"
proof (intro conjI impI)
  assume "BuildSwapInstruction L oor a sreq = Inr instr"
  then obtain w rest where
    "PublicKeyFromBase58 L (SwapRequest.UserWallet sreq) = Inr w"
    "Accounts instr = \<lparr>PublicKey = w, IsSigner = True, IsWritable = False\<rparr> # rest"
    "list_all (\<lambda>m. \<not> IsSigner m) rest"
    using swap_builders_accounts by blast
  then show "Accounts instr \<noteq> []"
    "PublicKeyFromBase58 L (SwapRequest.UserWallet sreq) = Inr (PublicKey (Accounts instr ! 0))"
    "IsSigner (Accounts instr ! 0)" "\<not> IsWritable (Accounts instr ! 0)"
    "map IsSigner (Accounts instr) = True # replicate (length (Accounts instr) - 1) False"
    using builder_signer [of "Accounts instr" w rest] by simp_all
next
  assume "BuildLiquidityInstruction L a lreq = Inr instr'"
  then obtain w rest where
    "PublicKeyFromBase58 L (LiquidityRequest.UserWallet lreq) = Inr w"
    "Accounts instr' = \<lparr>PublicKey = w, IsSigner = True, IsWritable = False\<rparr> # rest"
    "list_all (\<lambda>m. \<not> IsSigner m) rest"
    using liquidity_builders_accounts by blast
  then show "Accounts instr' \<noteq> []"
    "PublicKeyFromBase58 L (LiquidityRequest.UserWallet lreq)
       = Inr (PublicKey (Accounts instr' ! 0))"
    "IsSigner (Accounts instr' ! 0)" "\<not> IsWritable (Accounts instr' ! 0)"
    "map IsSigner (Accounts instr') = True # replicate (length (Accounts instr') - 1) False"
    using builder_signer [of "Accounts instr'" w rest] by simp_all
qed

theorem signer_is_the_wallet_witness:
  "\<not> isl (BuildSwapInstruction sdk no_oor pumpswapAdapter validSwapReq)
   \<and> PublicKey (Accounts (projr (BuildSwapInstruction sdk no_oor pumpswapAdapter validSwapReq)) ! 0)
       = wallet_key
   \<and> map IsSigner (Accounts (projr (BuildSwapInstruction sdk no_oor pumpswapAdapter validSwapReq)))
       = True # replicate
           (length (Accounts (projr (BuildSwapInstruction sdk no_oor pumpswapAdapter validSwapReq)))
              - 1) False
   \<and> \<not> isl (BuildLiquidityInstruction sdk pumpswapAdapter validLiquidityReq)
   \<and> PublicKey (Accounts (projr (BuildLiquidityInstruction sdk pumpswapAdapter validLiquidityReq)) ! 0)
       = wallet_key
   \<and> map IsSigner (Accounts (projr (BuildLiquidityInstruction sdk pumpswapAdapter validLiquidityReq)))
       = True # replicate
           (length (Accounts (projr (BuildLiquidityInstruction sdk pumpswapAdapter validLiquidityReq)))
              - 1) False"
proof -
  obtain i where
    i: "BuildSwapInstruction sdk no_oor pumpswapAdapter validSwapReq = Inr i"
    using PumpSwap_swap_builds [of no_oor pumpswap_key router_key]
    by (auto simp: pumpswapAdapter_def)
  obtain j where
    j: "BuildLiquidityInstruction sdk pumpswapAdapter validLiquidityReq = Inr j"
    using PumpSwap_liquidity_builds [of pumpswap_key]
    by (auto simp: pumpswapAdapter_def)
  have w: "PublicKeyFromBase58 sdk (SwapRequest.UserWallet validSwapReq) = Inr wallet_key"
    "PublicKeyFromBase58 sdk (LiquidityRequest.UserWallet validLiquidityReq) = Inr wallet_key"
    by (simp_all add: sdk_eval validLiquidityReq_def)
  from signer_is_the_wallet [of sdk no_oor pumpswapAdapter validSwapReq i validLiquidityReq j] i j w
  show ?thesis
    by simp
qed


section \<open>Fee estimation\<close>

lemma encode_tail_fee_down:
  assumes "\<And>tx. g tx = Inr None \<or> isl (g tx)"
  shows "encode_tail L (W\<lparr>GetFeeForMessage := g\<rparr>) i payer fee rid
     = (encode_tail L W i payer fee rid)
         \<lparr>EstimatedFee := (if Success (encode_tail L W i payer fee rid) then 5000 else 0)\<rparr>"
proof -
  have b: "buildTransaction L (W\<lparr>GetFeeForMessage := g\<rparr>) is p f = buildTransaction L W is p f"
    for "is" p f
    by (simp add: buildTransaction_def createPriorityFeeInstruction_def Let_def)
  have e: "(case estimateTransactionFee (W\<lparr>GetFeeForMessage := g\<rparr>) tx of
              Inl _ \<Rightarrow> 5000 | Inr fee \<Rightarrow> fee) = (5000 :: u64)" for tx
    using assms [of tx]
    by (auto simp: estimateTransactionFee_def isl_def split: sum.splits option.splits)
  show ?thesis
    unfolding encode_tail_def b Let_def e
    by (simp add: failure_def split: sum.splits)
qed

lemma encode_tail_success:
  assumes "buildTransaction L W [NewInstruction (InstructionData.ProgramID i) (Accounts i) (Data i)]
             payer fee = Inr tx"
    and "MarshalBinary W tx = Inr txData"
  shows "encode_tail L W i payer fee rid =
      \<lparr>Success = True, Transaction = EncodeToString W txData,
       EstimatedFee = (case estimateTransactionFee W tx of Inl _ \<Rightarrow> 5000 | Inr v \<Rightarrow> v),
       RequestID = rid, Error = []\<rparr>"
  using assms by (simp add: encode_tail_def Let_def)

lemma stamped_swap_builds:
  "\<exists>instr. BuildSwapInstruction sdk oor raydiumAdapter
      (validSwapReq\<lparr>SwapRequest.ID := x, SwapRequest.CreatedAt := t\<rparr>) = Inr instr"
  by (simp add: raydiumAdapter_def Raydium_BuildSwapInstruction_def sdk_eval Let_def)

lemma stamped_liquidity_builds:
  "\<exists>instr. BuildLiquidityInstruction sdk raydiumAdapter
      (validLiquidityReq\<lparr>LiquidityRequest.ID := x, LiquidityRequest.CreatedAt := t\<rparr>) = Inr instr"
  by (simp add: raydiumAdapter_def Raydium_BuildLiquidityInstruction_def sdk_eval liq_eval Let_def)

lemma testConfig_raydium:
  "Get (adapterRegistry (NewTransactionService sdk testConfig)) ''raydium'' = Inr raydiumAdapter"
  by (simp add: NewTransactionService_def Get_def NewAdapterRegistry_def testConfig_def
        config_eval Register_def sdk_def from_base58_raydium from_base58_pumpfun
        from_base58_pumpswap from_base58_router raydiumAdapter_def)

lemma fee_down_builds:
  "\<exists>tx. buildTransaction sdk fee_down is ''11111111111111111111111111111112'' 0 = Inr tx"
  by (simp add: buildTransaction_def fee_down_def sdk_eval)

text \<open>
  C7. Let the fee-for-message call fail for every message (an RPC error or a null value).
  Then the response of \<open>EncodeSwapTransaction\<close> and of \<open>EncodeLiquidityTransaction\<close> is the
  response obtained with any other behaviour of that call, except for the fee field, which
  is the default 5000 whenever the response is a success: the failure alone never turns a
  success into a failure. In particular, when the adapter is found, the request validates,
  the instruction and the transaction are built and the transaction serializes, the
  response has \<open>Success = true\<close>, the base64 of the serialized transaction and the fee 5000.
\<close>

theorem fee_failure_never_blocks_the_build:
  assumes "\<And>tx. g tx = Inr None \<or> isl (g tx)"
  shows
   "EncodeSwapTransaction L oor (W\<lparr>GetFeeForMessage := g\<rparr>) ts sreq
      = (EncodeSwapTransaction L oor W ts sreq)
          \<lparr>EstimatedFee := (if Success (EncodeSwapTransaction L oor W ts sreq) then 5000 else 0)\<rparr>
    \<and> EncodeLiquidityTransaction L (W\<lparr>GetFeeForMessage := g\<rparr>) ts lreq
      = (EncodeLiquidityTransaction L W ts lreq)
          \<lparr>EstimatedFee := (if Success (EncodeLiquidityTransaction L W ts lreq) then 5000 else 0)\<rparr>
    \<and> (Get (adapterRegistry ts) (SwapRequest.DEXType sreq) = Inr a
        \<and> ValidateRequest L a
             (SwapReq (sreq\<lparr>SwapRequest.ID := uuid_New W, SwapRequest.CreatedAt := time_Now W\<rparr>))
            = None
        \<and> BuildSwapInstruction L oor a
             (sreq\<lparr>SwapRequest.ID := uuid_New W, SwapRequest.CreatedAt := time_Now W\<rparr>) = Inr i
        \<and> buildTransaction L W [NewInstruction (InstructionData.ProgramID i) (Accounts i) (Data i)]
             (SwapRequest.UserWallet sreq) (SwapRequest.PriorityFee sreq) = Inr tx
        \<and> MarshalBinary W tx = Inr txData
        \<longrightarrow> EncodeSwapTransaction L oor (W\<lparr>GetFeeForMessage := g\<rparr>) ts sreq
             = \<lparr>Success = True, Transaction = EncodeToString W txData, EstimatedFee = 5000,
                RequestID = uuid_New W, Error = []\<rparr>)
    \<and> (Get (adapterRegistry ts) (LiquidityRequest.DEXType lreq) = Inr a'
        \<and> ValidateRequest L a'
             (LiquidityReq (lreq\<lparr>LiquidityRequest.ID := uuid_New W,
                                LiquidityRequest.CreatedAt := time_Now W\<rparr>)) = None
        \<and> BuildLiquidityInstruction L a'
             (lreq\<lparr>LiquidityRequest.ID := uuid_New W, LiquidityRequest.CreatedAt := time_Now W\<rparr>)
            = Inr i'
        \<and> buildTransaction L W
             [NewInstruction (InstructionData.ProgramID i') (Accounts i') (Data i')]
             (LiquidityRequest.UserWallet lreq) (LiquidityRequest.PriorityFee lreq) = Inr tx'
        \<and> MarshalBinary W tx' = Inr txData'
        \<longrightarrow> EncodeLiquidityTransaction L (W\<lparr>GetFeeForMessage := g\<rparr>) ts lreq
             = \<lparr>Success = True, Transaction = EncodeToString W txData', EstimatedFee = 5000,
                RequestID = uuid_New W, Error = []\<rparr>)"
proof (intro conjI impI)
  show "EncodeSwapTransaction L oor (W\<lparr>GetFeeForMessage := g\<rparr>) ts sreq
      = (EncodeSwapTransaction L oor W ts sreq)
          \<lparr>EstimatedFee := (if Success (EncodeSwapTransaction L oor W ts sreq) then 5000 else 0)\<rparr>"
    by (simp add: EncodeSwapTransaction_def Let_def encode_tail_fee_down [OF assms] failure_def
        split: sum.splits option.splits)
  show "EncodeLiquidityTransaction L (W\<lparr>GetFeeForMessage := g\<rparr>) ts lreq
      = (EncodeLiquidityTransaction L W ts lreq)
          \<lparr>EstimatedFee := (if Success (EncodeLiquidityTransaction L W ts lreq) then 5000 else 0)\<rparr>"
    by (simp add: EncodeLiquidityTransaction_def Let_def encode_tail_fee_down [OF assms] failure_def
        split: sum.splits option.splits)
next
  assume h: "Get (adapterRegistry ts) (SwapRequest.DEXType sreq) = Inr a
        \<and> ValidateRequest L a
             (SwapReq (sreq\<lparr>SwapRequest.ID := uuid_New W, SwapRequest.CreatedAt := time_Now W\<rparr>))
            = None
        \<and> BuildSwapInstruction L oor a
             (sreq\<lparr>SwapRequest.ID := uuid_New W, SwapRequest.CreatedAt := time_Now W\<rparr>) = Inr i
        \<and> buildTransaction L W [NewInstruction (InstructionData.ProgramID i) (Accounts i) (Data i)]
             (SwapRequest.UserWallet sreq) (SwapRequest.PriorityFee sreq) = Inr tx
        \<and> MarshalBinary W tx = Inr txData"
  then show "EncodeSwapTransaction L oor (W\<lparr>GetFeeForMessage := g\<rparr>) ts sreq
             = \<lparr>Success = True, Transaction = EncodeToString W txData, EstimatedFee = 5000,
                RequestID = uuid_New W, Error = []\<rparr>"
    by (simp add: EncodeSwapTransaction_def Let_def encode_tail_fee_down [OF assms]
          encode_tail_success)
next
  assume h: "Get (adapterRegistry ts) (LiquidityRequest.DEXType lreq) = Inr a'
        \<and> ValidateRequest L a'
             (LiquidityReq (lreq\<lparr>LiquidityRequest.ID := uuid_New W,
                                LiquidityRequest.CreatedAt := time_Now W\<rparr>)) = None
        \<and> BuildLiquidityInstruction L a'
             (lreq\<lparr>LiquidityRequest.ID := uuid_New W, LiquidityRequest.CreatedAt := time_Now W\<rparr>)
            = Inr i'
        \<and> buildTransaction L W
             [NewInstruction (InstructionData.ProgramID i') (Accounts i') (Data i')]
             (LiquidityRequest.UserWallet lreq) (LiquidityRequest.PriorityFee lreq) = Inr tx'
        \<and> MarshalBinary W tx' = Inr txData'"
  then show "EncodeLiquidityTransaction L (W\<lparr>GetFeeForMessage := g\<rparr>) ts lreq
             = \<lparr>Success = True, Transaction = EncodeToString W txData', EstimatedFee = 5000,
                RequestID = uuid_New W, Error = []\<rparr>"
    by (simp add: EncodeLiquidityTransaction_def Let_def encode_tail_fee_down [OF assms]
          encode_tail_success)
qed

theorem fee_failure_never_blocks_the_build_witness:
  "(\<forall>tx. isl (GetFeeForMessage fee_down tx))
   \<and> Success (EncodeSwapTransaction sdk no_oor fee_down (NewTransactionService sdk testConfig)
                validSwapReq)
   \<and> EstimatedFee (EncodeSwapTransaction sdk no_oor fee_down (NewTransactionService sdk testConfig)
                validSwapReq) = 5000
   \<and> Success (EncodeLiquidityTransaction sdk fee_down (NewTransactionService sdk testConfig)
                validLiquidityReq)
   \<and> EstimatedFee (EncodeLiquidityTransaction sdk fee_down (NewTransactionService sdk testConfig)
                validLiquidityReq) = 5000"
proof -
  let ?svc = "NewTransactionService sdk testConfig"
  let ?sreq = "validSwapReq\<lparr>SwapRequest.ID := uuid_New fee_down,
                 SwapRequest.CreatedAt := time_Now fee_down\<rparr>"
  let ?lreq = "validLiquidityReq\<lparr>LiquidityRequest.ID := uuid_New fee_down,
                 LiquidityRequest.CreatedAt := time_Now fee_down\<rparr>"
  have f: "GetFeeForMessage fee_down tx = Inr None \<or> isl (GetFeeForMessage fee_down tx)" for tx
    by (simp add: fee_down_def)
  have same: "fee_down\<lparr>GetFeeForMessage := GetFeeForMessage fee_down\<rparr> = fee_down"
    by simp
  obtain i where i: "BuildSwapInstruction sdk no_oor raydiumAdapter ?sreq = Inr i"
    using stamped_swap_builds by blast
  obtain j where j: "BuildLiquidityInstruction sdk raydiumAdapter ?lreq = Inr j"
    using stamped_liquidity_builds by blast
  obtain tx where tx: "buildTransaction sdk fee_down
      [NewInstruction (InstructionData.ProgramID i) (Accounts i) (Data i)]
      (SwapRequest.UserWallet validSwapReq) (SwapRequest.PriorityFee validSwapReq) = Inr tx"
    using fee_down_builds by (auto simp: validSwapReq_def)
  obtain tx' where tx': "buildTransaction sdk fee_down
      [NewInstruction (InstructionData.ProgramID j) (Accounts j) (Data j)]
      (LiquidityRequest.UserWallet validLiquidityReq)
      (LiquidityRequest.PriorityFee validLiquidityReq) = Inr tx'"
    using fee_down_builds by (auto simp: validLiquidityReq_def)
  obtain d where d: "MarshalBinary fee_down tx = Inr d"
    by (simp add: fee_down_def)
  obtain d' where d': "MarshalBinary fee_down tx' = Inr d'"
    by (simp add: fee_down_def)
  have g: "Get (adapterRegistry ?svc) (SwapRequest.DEXType validSwapReq) = Inr raydiumAdapter"
    "Get (adapterRegistry ?svc) (LiquidityRequest.DEXType validLiquidityReq) = Inr raydiumAdapter"
    using testConfig_raydium by (simp_all add: validSwapReq_def validLiquidityReq_def)
  have v: "ValidateRequest sdk raydiumAdapter (SwapReq ?sreq) = None"
    "ValidateRequest sdk raydiumAdapter (LiquidityReq ?lreq) = None"
    by (simp_all add: raydiumAdapter_def Raydium_ValidateRequest_def sdk_eval liq_eval)
  have down: "\<forall>tx. isl (GetFeeForMessage fee_down tx)"
    by (simp add: fee_down_def)
  from fee_failure_never_blocks_the_build [where g = "GetFeeForMessage fee_down" and L = sdk
      and oor = no_oor and ts = ?svc and W = fee_down
      and sreq = validSwapReq and lreq = validLiquidityReq and a = raydiumAdapter and i = i
      and tx = tx and txData = d and a' = raydiumAdapter and i' = j and tx' = tx'
      and txData' = d', OF f]
    i j tx tx' d d' g v down
  show ?thesis
    by (simp add: same)
qed

section \<open>The registry built at start-up\<close>

lemma register_adapters_sound:
  "register_adapters L es r n = Some a \<Longrightarrow>
     r n = Some a \<or> (\<exists>e \<in> set es. Name e = n \<and> registered L e a)"
proof (induction es arbitrary: r)
  case Nil
  then show ?case by simp
next
  case (Cons e es)
  from Cons.IH [OF Cons.prems [unfolded register_adapters.simps]]
  show ?case
    by (auto simp: registered_def Register_def split: if_splits sum.splits)
qed

lemma register_adapters_skip:
  "(\<forall>e \<in> set es. Name e = n \<longrightarrow> (\<forall>a. \<not> registered L e a)) \<Longrightarrow>
     register_adapters L es r n = r n"
proof (induction es arbitrary: r)
  case Nil
  then show ?case by simp
next
  case (Cons e es)
  then show ?case
    by (auto simp: registered_def Register_def split: sum.splits)
qed

lemma skipped_iff: "skipped L e \<longleftrightarrow> (\<forall>a. \<not> registered L e a)"
  by (cases "NewRaydiumAdapter L e"; cases "NewPumpfunAdapter L e"; cases "NewPumpSwapAdapter L e")
     (auto simp: skipped_def registered_def)

lemma partlyBroken_skipped:
  "skipped sdk invalidConfig" "skipped sdk (pumpswapConfig\<lparr>Enabled := False\<rparr>)"
  "skipped sdk (raydiumConfig\<lparr>Name := ''orca''\<rparr>)"
  "\<not> skipped sdk raydiumConfig"
  using from_base58_invalid
  by (auto simp: skipped_def config_eval sdk_def from_base58_raydium isl_def)

text \<open>
  C10. \<open>NewTransactionService\<close> always returns a service (it has no error result) and keeps
  the configuration. Every adapter its registry holds under a name was constructed
  without error from an enabled entry of that name among the three known DEX names. When
  every entry of a name is skipped (disabled, unknown name, or constructor error), a later
  \<open>GetDEXAdapter\<close> for that name returns no adapter and the error "adapter not found";
  with unique entry names this holds for the name of each skipped entry.
\<close>

theorem registry_holds_only_constructed_adapters:
  "(GetDEXAdapter (NewTransactionService L cfg) n = Inr a \<longrightarrow>
      (\<exists>e \<in> set (DEXes cfg). Name e = n \<and> registered L e a))
   \<and> ((\<forall>e \<in> set (DEXes cfg). Name e = n \<longrightarrow> skipped L e) \<longrightarrow>
      GetDEXAdapter (NewTransactionService L cfg) n = Inl (Err (''adapter not found: '' @ n)))
   \<and> (distinct (map Name (DEXes cfg)) \<and> e \<in> set (DEXes cfg) \<and> skipped L e \<longrightarrow>
      GetDEXAdapter (NewTransactionService L cfg) (Name e)
        = Inl (Err (''adapter not found: '' @ Name e)))
   \<and> TransactionService.config (NewTransactionService L cfg) = cfg"
proof (intro conjI impI)
  assume "GetDEXAdapter (NewTransactionService L cfg) n = Inr a"
  then have "register_adapters L (DEXes cfg) Map.empty n = Some a"
    by (simp add: GetDEXAdapter_def NewTransactionService_def Get_def NewAdapterRegistry_def
        split: option.splits)
  from register_adapters_sound [OF this]
  show "\<exists>e \<in> set (DEXes cfg). Name e = n \<and> registered L e a"
    by simp
next
  assume "\<forall>e \<in> set (DEXes cfg). Name e = n \<longrightarrow> skipped L e"
  then have "register_adapters L (DEXes cfg) Map.empty n = None"
    using register_adapters_skip [of "DEXes cfg" n L Map.empty] by (simp add: skipped_iff)
  then show "GetDEXAdapter (NewTransactionService L cfg) n = Inl (Err (''adapter not found: '' @ n))"
    by (simp add: GetDEXAdapter_def NewTransactionService_def Get_def NewAdapterRegistry_def)
next
  assume h: "distinct (map Name (DEXes cfg)) \<and> e \<in> set (DEXes cfg) \<and> skipped L e"
  then have "\<forall>e' \<in> set (DEXes cfg). Name e' = Name e \<longrightarrow> e' = e"
    by (auto simp: distinct_map dest: inj_onD)
  with h have "\<forall>e' \<in> set (DEXes cfg). Name e' = Name e \<longrightarrow> (\<forall>a. \<not> registered L e' a)"
    by (auto simp: skipped_iff)
  then have "register_adapters L (DEXes cfg) Map.empty (Name e) = None"
    using register_adapters_skip [of "DEXes cfg" "Name e" L Map.empty] by simp
  then show "GetDEXAdapter (NewTransactionService L cfg) (Name e)
        = Inl (Err (''adapter not found: '' @ Name e))"
    by (simp add: GetDEXAdapter_def NewTransactionService_def Get_def NewAdapterRegistry_def)
next
  show "TransactionService.config (NewTransactionService L cfg) = cfg"
    by (simp add: NewTransactionService_def)
qed

theorem registry_holds_only_constructed_adapters_witness:
  "distinct (map Name (DEXes partlyBrokenConfig))
   \<and> skipped sdk invalidConfig \<and> Name invalidConfig = ''pumpfun''
   \<and> GetDEXAdapter (NewTransactionService sdk partlyBrokenConfig) ''pumpfun''
       = Inl (Err ''adapter not found: pumpfun'')
   \<and> GetDEXAdapter (NewTransactionService sdk partlyBrokenConfig) ''pumpswap''
       = Inl (Err ''adapter not found: pumpswap'')
   \<and> GetDEXAdapter (NewTransactionService sdk partlyBrokenConfig) ''orca''
       = Inl (Err ''adapter not found: orca'')
   \<and> GetDEXAdapter (NewTransactionService sdk partlyBrokenConfig) ''raydium'' = Inr raydiumAdapter"
proof -
  have d: "distinct (map Name (DEXes partlyBrokenConfig))"
    by (simp add: partlyBrokenConfig_def config_eval)
  have m: "invalidConfig \<in> set (DEXes partlyBrokenConfig)"
    "pumpswapConfig\<lparr>Enabled := False\<rparr> \<in> set (DEXes partlyBrokenConfig)"
    "raydiumConfig\<lparr>Name := ''orca''\<rparr> \<in> set (DEXes partlyBrokenConfig)"
    by (simp_all add: partlyBrokenConfig_def)
  have n: "Name invalidConfig = ''pumpfun''" "Name (pumpswapConfig\<lparr>Enabled := False\<rparr>) = ''pumpswap''"
    "Name (raydiumConfig\<lparr>Name := ''orca''\<rparr>) = ''orca''"
    by (simp_all add: config_eval)
  have r: "GetDEXAdapter (NewTransactionService sdk partlyBrokenConfig) ''raydium''
             = Inr raydiumAdapter"
    using from_base58_invalid
    by (simp add: GetDEXAdapter_def NewTransactionService_def Get_def NewAdapterRegistry_def
        partlyBrokenConfig_def config_eval Register_def sdk_def from_base58_raydium
        raydiumAdapter_def split: sum.splits)
  from registry_holds_only_constructed_adapters
         [of sdk partlyBrokenConfig "''pumpfun''" raydiumAdapter invalidConfig]
       registry_holds_only_constructed_adapters
         [of sdk partlyBrokenConfig "''pumpfun''" raydiumAdapter "pumpswapConfig\<lparr>Enabled := False\<rparr>"]
       registry_holds_only_constructed_adapters
         [of sdk partlyBrokenConfig "''pumpfun''" raydiumAdapter "raydiumConfig\<lparr>Name := ''orca''\<rparr>"]
       d m n r partlyBroken_skipped
  show ?thesis
    by simp
qed


section \<open>The retry loop\<close>

lemma retry_loop_exit: "\<not> int i < n \<Longrightarrow> retry_loop n d i st = st"
  by (simp add: retry_loop.simps)

lemma retry_loop_settle:
  "int i < n \<Longrightarrow> attempt_settles (d i) \<Longrightarrow>
     retry_loop n d i st = st\<lparr>resp := do_resp (d i), err := do_err (d i), calls := calls st + 1\<rparr>"
  by (subst retry_loop.simps) (auto simp: attempt_settles_def Let_def split: option.splits)

lemma retry_loop_fail:
  "int i < n \<Longrightarrow> attempt_fails (d i) \<Longrightarrow>
     retry_loop n d i st =
       retry_loop n d (Suc i)
         (if int i < n - 1
          then st\<lparr>resp := do_resp (d i), err := do_err (d i), calls := calls st + 1,
                  sleeps := sleeps st @ [int i + 1]\<rparr>
          else st\<lparr>resp := do_resp (d i), err := do_err (d i), calls := calls st + 1\<rparr>)"
  by (subst retry_loop.simps) (auto simp: attempt_fails_def Let_def split: option.splits)

lemma retry_loop_nil:
  "int i < n \<Longrightarrow> do_err (d i) = None \<Longrightarrow> do_resp (d i) = None \<Longrightarrow>
     retry_loop n d i st = st\<lparr>resp := None, err := None, calls := calls st + 1, panicked := True\<rparr>"
  by (subst retry_loop.simps) (simp add: Let_def)

lemma attempt_cases:
  "attempt_settles r \<or> attempt_fails r \<or> do_err r = None \<and> do_resp r = None"
  by (auto simp: attempt_settles_def attempt_fails_def split: option.splits)

lemma retry_loop_trace:
  "nat (n - int i) = k \<Longrightarrow> calls st = i \<Longrightarrow> sleeps st = map int [1..<Suc i] \<Longrightarrow> int i < n \<Longrightarrow>
     calls (retry_loop n d i st) \<le> nat n
     \<and> sleeps (retry_loop n d i st) = map int [1..<calls (retry_loop n d i st)]"
proof (induction k arbitrary: i st)
  case 0
  then show ?case by simp
next
  case (Suc k)
  consider (settles) "attempt_settles (d i)" | (fails) "attempt_fails (d i)"
    | (nil) "do_err (d i) = None" "do_resp (d i) = None"
    using attempt_cases [of "d i"] by auto
  then show ?case
  proof cases
    case settles
    with Suc.prems show ?thesis
      by (simp add: retry_loop_settle)
  next
    case nil
    with Suc.prems show ?thesis
      by (simp add: retry_loop_nil)
  next
    case fails
    show ?thesis
    proof (cases "int i < n - 1")
      case True
      let ?st = "st\<lparr>resp := do_resp (d i), err := do_err (d i), calls := calls st + 1,
                  sleeps := sleeps st @ [int i + 1]\<rparr>"
      have "nat (n - int (Suc i)) = k" "calls ?st = Suc i" "sleeps ?st = map int [1..<Suc (Suc i)]"
        "int (Suc i) < n"
        using Suc.prems True by simp_all
      from Suc.IH [OF this] fails True Suc.prems(4) show ?thesis
        by (simp add: retry_loop_fail)
    next
      case False
      with fails Suc.prems show ?thesis
        by (simp add: retry_loop_fail retry_loop_exit)
    qed
  qed
qed

lemma retry_loop_short_circuit:
  "nat (int j - int i) = k \<Longrightarrow> i \<le> j \<Longrightarrow> int j < n \<Longrightarrow> calls st = i \<Longrightarrow>
   (\<forall>m. i \<le> m \<and> m < j \<longrightarrow> attempt_fails (d m)) \<Longrightarrow> attempt_settles (d j) \<Longrightarrow>
     calls (retry_loop n d i st) = Suc j
     \<and> resp (retry_loop n d i st) = do_resp (d j)
     \<and> err (retry_loop n d i st) = None
     \<and> panicked (retry_loop n d i st) = panicked st"
proof (induction k arbitrary: i st)
  case 0
  then have "i = j" by simp
  with 0 show ?case
    by (auto simp: retry_loop_settle attempt_settles_def split: option.splits)
next
  case (Suc k)
  then have lt: "i < j" "int i < n - 1" "int i < n" and f: "attempt_fails (d i)"
    by auto
  let ?st = "st\<lparr>resp := do_resp (d i), err := do_err (d i), calls := calls st + 1,
              sleeps := sleeps st @ [int i + 1]\<rparr>"
  have "nat (int j - int (Suc i)) = k" "Suc i \<le> j" "calls ?st = Suc i"
    "\<forall>m. Suc i \<le> m \<and> m < j \<longrightarrow> attempt_fails (d m)"
    using Suc.prems lt by simp_all
  from Suc.IH [OF this(1,2) Suc.prems(3) this(3,4) Suc.prems(6)] lt f show ?case
    by (simp add: retry_loop_fail)
qed

lemma retry_loop_exhausted:
  "nat (n - int i) = k \<Longrightarrow> int i < n \<Longrightarrow> calls st = i \<Longrightarrow>
   (\<forall>m. i \<le> m \<and> int m < n \<longrightarrow> attempt_fails (d m)) \<Longrightarrow>
     calls (retry_loop n d i st) = nat n
     \<and> resp (retry_loop n d i st) = do_resp (d (nat n - 1))
     \<and> err (retry_loop n d i st) = do_err (d (nat n - 1))
     \<and> panicked (retry_loop n d i st) = panicked st"
proof (induction k arbitrary: i st)
  case 0
  then show ?case by simp
next
  case (Suc k)
  then have f: "attempt_fails (d i)" by simp
  show ?case
  proof (cases "int i < n - 1")
    case True
    let ?st = "st\<lparr>resp := do_resp (d i), err := do_err (d i), calls := calls st + 1,
                sleeps := sleeps st @ [int i + 1]\<rparr>"
    have "nat (n - int (Suc i)) = k" "int (Suc i) < n" "calls ?st = Suc i"
      "\<forall>m. Suc i \<le> m \<and> int m < n \<longrightarrow> attempt_fails (d m)"
      using Suc.prems True by simp_all
    from Suc.IH [OF this] f True Suc.prems(2) show ?thesis
      by (simp add: retry_loop_fail)
  next
    case False
    with Suc.prems have "nat n - 1 = i" "nat n = Suc i"
      by linarith+
    with False f Suc.prems show ?thesis
      by (simp add: retry_loop_fail retry_loop_exit)
  qed
qed

lemma makeRequest_loop:
  assumes "Marshal H = None" and "NewRequestWithContext H = None"
  shows "snd (makeRequest H n True hasResult) = retry_loop n (Do H) 0 loop_init"
    and "fst (makeRequest H n True hasResult) =
      (let st = retry_loop n (Do H) 0 loop_init
       in if panicked st then Panic
          else case err st of
            Some e \<Rightarrow> Return (Some (wrapf (''request failed after '' @ itoa n @ '' retries'') e))
          | None \<Rightarrow>
             (case resp st of
                None \<Rightarrow> Panic
              | Some r \<Rightarrow>
                  if 400 \<le> StatusCode r
                  then Return (Some (Err (''request failed with status '' @ itoa (StatusCode r))))
                  else if hasResult
                  then Return (map_option (wrapf ''failed to decode response'') (Decode H r))
                  else Return None))"
  using assms by (auto simp: makeRequest_def Let_def split: option.splits)

lemma makeRequest_trace:
  "calls (snd (makeRequest H n hasBody hasResult)) \<le> nat n
   \<and> sleeps (snd (makeRequest H n hasBody hasResult))
       = map int [1..<calls (snd (makeRequest H n hasBody hasResult))]"
proof (cases "hasBody \<and> Marshal H = None \<and> NewRequestWithContext H = None")
  case False
  then show ?thesis
    by (auto simp: makeRequest_def loop_init_def split: option.splits)
next
  case True
  then have s: "snd (makeRequest H n hasBody hasResult) = retry_loop n (Do H) 0 loop_init"
    using makeRequest_loop(1) [of H n hasResult] by simp
  show ?thesis
  proof (cases "0 < n")
    case True
    then show ?thesis
      unfolding s
      using retry_loop_trace [of n 0 "nat n" loop_init "Do H"]
      by (simp add: loop_init_def)
  next
    case False
    then show ?thesis
      unfolding s by (simp add: retry_loop_exit loop_init_def)
  qed
qed

lemma makeRequest_without_attempts:
  assumes "Marshal H = None" and "NewRequestWithContext H = None" and "n \<le> 0"
  shows "makeRequest H n True hasResult = (Panic, loop_init)"
  using assms by (auto simp: makeRequest_def retry_loop_exit loop_init_def split: option.splits)

lemma makeRequest_nil_body:
  "makeRequest H n False hasResult =
     (case NewRequestWithContext H of
        Some e \<Rightarrow> (Return (Some (wrapf ''failed to create request'' e)), loop_init)
      | None \<Rightarrow> (Panic, loop_init))"
  by (simp add: makeRequest_def split: option.splits)

lemma itoa_3: "itoa 3 = ''3''"
  by code_simp

text \<open>
  What the loop does for a call that carries a body. \<open>makeRequest\<close> calls the server at
  most \<open>RetryCount\<close> times; between consecutive attempts it sleeps, the \<open>k\<close>-th sleep
  lasting \<open>k\<close> seconds, and it never sleeps after the last attempt. When the attempts
  before the \<open>j\<close>-th fail and the \<open>j\<close>-th returns a response with a status below 500, no
  further attempt is made: a status of 400 or more is returned as an error, anything else
  is decoded. When \<open>RetryCount\<close> is at least 1 and every attempt fails, exactly
  \<open>RetryCount\<close> attempts are made and an error is returned to the caller:
  "request failed after n retries" around the transport error of the last attempt, or
  "request failed with status" for its server error.
\<close>

lemma retry_policy_with_body:
  "calls (snd (makeRequest H n True hasResult)) \<le> nat n
   \<and> sleeps (snd (makeRequest H n True hasResult))
       = map int [1..<calls (snd (makeRequest H n True hasResult))]
   \<and> (Marshal H = None \<and> NewRequestWithContext H = None \<and> int j < n
        \<and> (\<forall>k<j. attempt_fails (Do H k)) \<and> attempt_settles (Do H j) \<longrightarrow>
        calls (snd (makeRequest H n True hasResult)) = Suc j
        \<and> resp (snd (makeRequest H n True hasResult)) = do_resp (Do H j)
        \<and> fst (makeRequest H n True hasResult) =
            (case do_resp (Do H j) of
               None \<Rightarrow> Panic
             | Some r \<Rightarrow>
                 if 400 \<le> StatusCode r
                 then Return (Some (Err (''request failed with status '' @ itoa (StatusCode r))))
                 else if hasResult
                 then Return (map_option (wrapf ''failed to decode response'') (Decode H r))
                 else Return None))
   \<and> (Marshal H = None \<and> NewRequestWithContext H = None \<and> 1 \<le> n
        \<and> (\<forall>k. int k < n \<longrightarrow> attempt_fails (Do H k)) \<longrightarrow>
        calls (snd (makeRequest H n True hasResult)) = nat n
        \<and> fst (makeRequest H n True hasResult) =
            Return (Some (case do_err (Do H (nat n - 1)) of
               Some e \<Rightarrow> wrapf (''request failed after '' @ itoa n @ '' retries'') e
             | None \<Rightarrow> Err (''request failed with status ''
                              @ itoa (StatusCode (the (do_resp (Do H (nat n - 1)))))))))"
proof (intro conjI impI)
  show "calls (snd (makeRequest H n True hasResult)) \<le> nat n"
    "sleeps (snd (makeRequest H n True hasResult))
       = map int [1..<calls (snd (makeRequest H n True hasResult))]"
    using makeRequest_trace by blast+
next
  assume h: "Marshal H = None \<and> NewRequestWithContext H = None \<and> int j < n
        \<and> (\<forall>k<j. attempt_fails (Do H k)) \<and> attempt_settles (Do H j)"
  then have l: "calls (retry_loop n (Do H) 0 loop_init) = Suc j
     \<and> resp (retry_loop n (Do H) 0 loop_init) = do_resp (Do H j)
     \<and> err (retry_loop n (Do H) 0 loop_init) = None
     \<and> panicked (retry_loop n (Do H) 0 loop_init) = panicked loop_init"
    using retry_loop_short_circuit [of j 0 j n loop_init "Do H"] by (simp add: loop_init_def)
  from h show "calls (snd (makeRequest H n True hasResult)) = Suc j"
    "resp (snd (makeRequest H n True hasResult)) = do_resp (Do H j)"
    using l makeRequest_loop(1) [of H n hasResult] by simp_all
  from h l show "fst (makeRequest H n True hasResult) =
            (case do_resp (Do H j) of
               None \<Rightarrow> Panic
             | Some r \<Rightarrow>
                 if 400 \<le> StatusCode r
                 then Return (Some (Err (''request failed with status '' @ itoa (StatusCode r))))
                 else if hasResult
                 then Return (map_option (wrapf ''failed to decode response'') (Decode H r))
                 else Return None)"
    using makeRequest_loop(2) [of H n hasResult]
    by (simp add: Let_def loop_init_def)
next
  assume h: "Marshal H = None \<and> NewRequestWithContext H = None \<and> 1 \<le> n
        \<and> (\<forall>k. int k < n \<longrightarrow> attempt_fails (Do H k))"
  then have l: "calls (retry_loop n (Do H) 0 loop_init) = nat n
     \<and> resp (retry_loop n (Do H) 0 loop_init) = do_resp (Do H (nat n - 1))
     \<and> err (retry_loop n (Do H) 0 loop_init) = do_err (Do H (nat n - 1))
     \<and> panicked (retry_loop n (Do H) 0 loop_init) = panicked loop_init"
    using retry_loop_exhausted [of n 0 "nat n" loop_init "Do H"] by (simp add: loop_init_def)
  from h show "calls (snd (makeRequest H n True hasResult)) = nat n"
    using l makeRequest_loop(1) [of H n hasResult] by simp
  from h have "int (nat n - 1) < n"
    by linarith
  with h have f: "attempt_fails (Do H (nat n - 1))"
    by blast
  from h l f show "fst (makeRequest H n True hasResult) =
            Return (Some (case do_err (Do H (nat n - 1)) of
               Some e \<Rightarrow> wrapf (''request failed after '' @ itoa n @ '' retries'') e
             | None \<Rightarrow> Err (''request failed with status ''
                              @ itoa (StatusCode (the (do_resp (Do H (nat n - 1))))))))"
    using makeRequest_loop(2) [of H n hasResult]
    by (auto simp: Let_def loop_init_def attempt_fails_def split: option.splits)
qed

lemma retry_policy_with_body_example:
  "attempt_fails (Do flaky 0) \<and> attempt_fails (Do flaky 1) \<and> attempt_settles (Do flaky 2)
   \<and> fst (makeRequest flaky 3 True True) = Return None
   \<and> calls (snd (makeRequest flaky 3 True True)) = 3
   \<and> sleeps (snd (makeRequest flaky 3 True True)) = [1, 2]
   \<and> attempt_fails (Do unreachable 0) \<and> attempt_fails (Do unreachable 1)
   \<and> attempt_fails (Do unreachable 2)
   \<and> fst (makeRequest unreachable 3 True True)
       = Return (Some (Err ''request failed after 3 retries: connection refused''))
   \<and> calls (snd (makeRequest unreachable 3 True True)) = 3
   \<and> sleeps (snd (makeRequest unreachable 3 True True)) = [1, 2]"
proof -
  have a: "attempt_fails (Do flaky 0)" "attempt_fails (Do flaky 1)" "attempt_settles (Do flaky 2)"
    "attempt_fails (Do unreachable k)" for k
    by (simp_all add: flaky_def unreachable_def attempt_fails_def attempt_settles_def)
  have b: "\<forall>k<2. attempt_fails (Do flaky k)"
    using a(1,2) by (auto simp: less_Suc_eq numeral_2_eq_2)
  have c: "Marshal flaky = None" "NewRequestWithContext flaky = None"
    "Marshal unreachable = None" "NewRequestWithContext unreachable = None"
    "do_resp (Do flaky 2) = Some \<lparr>StatusCode = 200, Body = ''{}''\<rparr>" "Decode flaky r = None"
    "do_err (Do unreachable k) = Some (Err ''connection refused'')" for r k
    by (simp_all add: flaky_def unreachable_def)
  from retry_policy_with_body [of flaky 3 True 2] retry_policy_with_body [of unreachable 3 True 0] a b c
  show ?thesis
    by (simp add: itoa_3 wrapf_def upt_rec)
qed

text \<open>
  C6, evaluated at failing inputs. The pool calls (\<open>GetPools\<close> of each adapter) pass no
  body. Against a server that answers 503 twice and then 200, and against one that
  refuses every connection, such a call with \<open>RetryCount = 3\<close> panics before the first
  attempt: no request is sent, nothing is retried and no error reaches the caller. The
  same calls with a body (the quote calls) follow the retry policy. With \<open>RetryCount = 0\<close>
  a call with a body makes no attempt either and panics on the nil response.
\<close>

theorem pool_request_panics_before_any_attempt:
  "fst (makeRequest flaky 3 False True) = Panic
   \<and> calls (snd (makeRequest flaky 3 False True)) = 0
   \<and> fst (makeRequest unreachable 3 False True) = Panic
   \<and> calls (snd (makeRequest unreachable 3 False True)) = 0
   \<and> fst (makeRequest flaky 3 True True) = Return None
   \<and> calls (snd (makeRequest flaky 3 True True)) = 3
   \<and> sleeps (snd (makeRequest flaky 3 True True)) = [1, 2]
   \<and> fst (makeRequest unreachable 3 True True)
       = Return (Some (Err ''request failed after 3 retries: connection refused''))
   \<and> calls (snd (makeRequest unreachable 3 True True)) = 3
   \<and> fst (makeRequest unreachable 0 True True) = Panic
   \<and> calls (snd (makeRequest unreachable 0 True True)) = 0"
proof -
  have "NewRequestWithContext flaky = None" "NewRequestWithContext unreachable = None"
    "Marshal unreachable = None"
    by (simp_all add: flaky_def unreachable_def)
  then show ?thesis
    using retry_policy_with_body_example
      makeRequest_without_attempts [of unreachable 0 True]
    by (simp add: makeRequest_nil_body loop_init_def)
qed

section \<open>PumpSwap pool address\<close>

lemma base58_sol: "base58_encode sol_key = ''So11111111111111111111111111111111111111112''"
  by code_simp

lemma base58_usdc: "base58_encode usdc_key = ''EPjFWdd5AufqSSqeM2qN1xzybapC8G4wEGGkZwyTDt1v''"
  by code_simp

text \<open>
  Base58 is injective: the leading \<open>1\<close>s give the number of leading zero bytes, the
  remaining digits the number that the other bytes write in base 256.
\<close>

lemma b58_alphabet_distinct: "distinct b58_alphabet" "length b58_alphabet = 58"
  by (simp_all add: b58_alphabet_def)

lemma b58_digit_inj:
  assumes "0 \<le> i" "i < 58" "0 \<le> j" "j < 58" "b58_alphabet ! nat i = b58_alphabet ! nat j"
  shows "i = j"
proof -
  have "nat i < length b58_alphabet" "nat j < length b58_alphabet"
    using assms by (simp_all add: b58_alphabet_distinct)
  with assms(5) have "nat i = nat j"
    using b58_alphabet_distinct(1) by (simp add: nth_eq_iff_index_eq)
  with assms show ?thesis by simp
qed

lemma b58_digit_one: "b58_alphabet ! 0 = CHR ''1''"
  by (simp add: b58_alphabet_def)

lemma b58_digits_inj:
  "0 \<le> n \<Longrightarrow> 0 \<le> m \<Longrightarrow> b58_digits n = b58_digits m \<Longrightarrow> n = m"
proof (induction n arbitrary: m rule: b58_digits.induct)
  case (1 n)
  show ?case
  proof (cases "n \<le> 0")
    case True
    with 1(2) have n: "n = 0" by simp
    with 1(4) have "b58_digits m = []" by (simp add: b58_digits.simps [of 0])
    then have "m \<le> 0" by (subst (asm) b58_digits.simps) (simp split: if_splits)
    with 1(3) n show ?thesis by simp
  next
    case False
    then have dn: "b58_digits n = b58_digits (n div 58) @ [b58_alphabet ! nat (n mod 58)]"
      by (subst b58_digits.simps) simp
    have "\<not> m \<le> 0"
    proof
      assume "m \<le> 0"
      then have "b58_digits m = []" by (subst b58_digits.simps) simp
      with dn 1(4) show False by simp
    qed
    then have dm: "b58_digits m = b58_digits (m div 58) @ [b58_alphabet ! nat (m mod 58)]"
      by (subst b58_digits.simps) simp
    from dn dm 1(4) have e: "b58_digits (n div 58) = b58_digits (m div 58)"
      "b58_alphabet ! nat (n mod 58) = b58_alphabet ! nat (m mod 58)"
      by simp_all
    have "n div 58 = m div 58"
      using 1(1) [OF False _ _ e(1)] 1(2,3) by (simp add: pos_imp_zdiv_nonneg_iff)
    moreover have "n mod 58 = m mod 58"
      using b58_digit_inj [OF _ _ _ _ e(2)] by simp
    ultimately show ?thesis
      by (metis mult_div_mod_eq)
  qed
qed

lemma b58_digits_hd:
  "0 < n \<Longrightarrow> b58_digits n \<noteq> [] \<and> hd (b58_digits n) \<noteq> CHR ''1''"
proof (induction n rule: b58_digits.induct)
  case (1 n)
  then have dn: "b58_digits n = b58_digits (n div 58) @ [b58_alphabet ! nat (n mod 58)]"
    by (subst b58_digits.simps) simp
  show ?case
  proof (cases "0 < n div 58")
    case True
    with 1 have "b58_digits (n div 58) \<noteq> [] \<and> hd (b58_digits (n div 58)) \<noteq> CHR ''1''"
      by simp
    with dn show ?thesis by simp
  next
    case False
    with 1(2) have z: "n div 58 = 0"
      using pos_imp_zdiv_nonneg_iff [of 58 n] by simp
    then have "b58_digits (n div 58) = []" by (simp add: b58_digits.simps [of 0])
    moreover from z 1(2) have m: "n mod 58 = n" "n < 58"
      by (simp_all add: div_pos_pos_trivial zdiv_eq_0_iff)
    have "b58_alphabet ! nat (n mod 58) \<noteq> b58_alphabet ! nat 0"
      using b58_digit_inj [of "n mod 58" 0] m 1(2) by auto
    ultimately show ?thesis
      using dn by (simp add: b58_digit_one)
  qed
qed

lemma takeWhile_ones:
  assumes "0 \<le> n"
  shows "takeWhile (\<lambda>c. c = CHR ''1'') (replicate z CHR ''1'' @ b58_digits n) = replicate z CHR ''1''"
proof (cases "n = 0")
  case True
  then show ?thesis by (simp add: b58_digits.simps [of 0] takeWhile_append2)
next
  case False
  with assms have "b58_digits n \<noteq> [] \<and> hd (b58_digits n) \<noteq> CHR ''1''"
    using b58_digits_hd [of n] by simp
  then obtain c cs where "b58_digits n = c # cs" "c \<noteq> CHR ''1''"
    by (cases "b58_digits n") auto
  then show ?thesis by (induction z) simp_all
qed

lemma be_value_append: "be_value a (xs @ [x]) = be_value a xs * 256 + uint x"
  by (induction xs arbitrary: a) simp_all

lemma be_value_nonneg: "0 \<le> a \<Longrightarrow> 0 \<le> be_value a xs"
  by (induction xs arbitrary: a) simp_all

lemma be_value_zeros: "be_value 0 (replicate z 0 @ xs) = be_value 0 xs"
  by (induction z) simp_all

lemma be_value_pos: "xs \<noteq> [] \<Longrightarrow> hd xs \<noteq> 0 \<Longrightarrow> 0 < be_value 0 xs"
proof (induction xs rule: rev_induct)
  case Nil
  then show ?case by simp
next
  case (snoc x xs)
  show ?case
  proof (cases "xs = []")
    case True
    with snoc(3) have "x \<noteq> 0" by simp
    then have "uint x \<noteq> 0" by (simp add: uint_0_iff)
    moreover have "0 \<le> uint x" by simp
    ultimately have "0 < uint x" by linarith
    with True show ?thesis by simp
  next
    case False
    with snoc have "0 < be_value 0 xs" by simp
    moreover have "0 \<le> uint x" by simp
    ultimately show ?thesis
      unfolding be_value_append by linarith
  qed
qed

lemma be_bytes_be_value:
  "xs = [] \<or> hd xs \<noteq> 0 \<Longrightarrow> be_bytes (be_value 0 xs) = xs"
proof (induction xs rule: rev_induct)
  case Nil
  then show ?case by (simp add: be_bytes.simps [of 0])
next
  case (snoc x xs)
  from snoc(2) have p: "0 < be_value 0 (xs @ [x])"
    using be_value_pos [of "xs @ [x]"] by simp
  have h: "xs = [] \<or> hd xs \<noteq> 0"
    using snoc(2) by (cases xs) simp_all
  have u: "0 \<le> uint x" "uint x < 256"
    using uint_lt2p [of x] by simp_all
  have d: "(be_value 0 xs * 256 + uint x) div 256 = be_value 0 xs"
    using u by simp
  have m: "(be_value 0 xs * 256 + uint x) mod 256 = uint x" "uint x mod 256 = uint x"
    using u by simp_all
  from p have "be_bytes (be_value 0 (xs @ [x]))
      = be_bytes (be_value 0 (xs @ [x]) div 256) @ [word_of_int (be_value 0 (xs @ [x]) mod 256)]"
    by (subst be_bytes.simps) simp
  then show ?case
    using snoc(1) [OF h] by (simp add: be_value_append d m)
qed

lemma zeros_split:
  "bs = replicate (length (takeWhile (\<lambda>b. b = 0) bs)) (0::byte)
          @ be_bytes (be_value 0 bs)"
proof -
  let ?t = "takeWhile (\<lambda>b. b = 0) bs" and ?d = "dropWhile (\<lambda>b. b = 0) bs"
  have t: "?t = replicate (length ?t) 0"
    by (rule replicate_eqI) (auto dest: set_takeWhileD)
  have "?d = [] \<or> hd ?d \<noteq> 0"
    using hd_dropWhile [of "\<lambda>b. b = 0" bs] by auto
  then have "be_bytes (be_value 0 ?d) = ?d"
    by (rule be_bytes_be_value)
  moreover have "be_value 0 bs = be_value 0 ?d"
    using be_value_zeros [of "length ?t" ?d] t by (metis takeWhile_dropWhile_id)
  ultimately show ?thesis
    using t by (metis takeWhile_dropWhile_id)
qed

lemma base58_encode_inj:
  assumes "base58_encode xs = base58_encode ys"
  shows "xs = ys"
proof -
  let ?z = "\<lambda>bs::byte list. length (takeWhile (\<lambda>b. b = 0) bs)"
  have nx: "0 \<le> be_value 0 xs" and ny: "0 \<le> be_value 0 ys"
    by (simp_all add: be_value_nonneg)
  from assms have e: "replicate (?z xs) CHR ''1'' @ b58_digits (be_value 0 xs)
      = replicate (?z ys) CHR ''1'' @ b58_digits (be_value 0 ys)"
    by (simp add: base58_encode_def)
  then have "takeWhile (\<lambda>c. c = CHR ''1'') (replicate (?z xs) CHR ''1'' @ b58_digits (be_value 0 xs))
      = takeWhile (\<lambda>c. c = CHR ''1'') (replicate (?z ys) CHR ''1'' @ b58_digits (be_value 0 ys))"
    by simp
  then have "replicate (?z xs) CHR ''1'' = replicate (?z ys) CHR ''1''"
    by (simp only: takeWhile_ones [OF nx] takeWhile_ones [OF ny])
  then have z: "?z xs = ?z ys"
    by (metis length_replicate)
  with e have "b58_digits (be_value 0 xs) = b58_digits (be_value 0 ys)"
    by simp
  then have "be_value 0 xs = be_value 0 ys"
    using b58_digits_inj [OF nx ny] by simp
  with z zeros_split [of xs] zeros_split [of ys] show ?thesis
    by simp
qed

text \<open>
  C5. For two mints whose base58 strings differ unless the mints are equal (as base58
  guarantees, \<open>base58_encode_inj\<close>), \<open>findPoolAddress\<close> gives the same result in either
  argument order: the seeds are \<open>["pool", lower, higher]\<close> with the mints ordered by their
  base58 strings, and the result is what \<open>FindProgramAddress\<close> returns for these seeds and
  the adapter's program id (its address, or its error under "failed to derive pool
  address").
\<close>

theorem pool_address_is_symmetric:
  assumes "String L tokenA = String L tokenB \<longrightarrow> tokenA = tokenB"
  shows "pool_seeds L tokenA tokenB = pool_seeds L tokenB tokenA
    \<and> findPoolAddress L programID tokenA tokenB = findPoolAddress L programID tokenB tokenA
    \<and> (pool_seeds L tokenA tokenB = [bytes_of ''pool'', tokenA, tokenB]
         \<and> String L tokenA \<le> String L tokenB
       \<or> pool_seeds L tokenA tokenB = [bytes_of ''pool'', tokenB, tokenA]
         \<and> String L tokenB \<le> String L tokenA)
    \<and> findPoolAddress L programID tokenA tokenB
        = (case FindProgramAddress L
                  (if String L tokenA < String L tokenB
                   then [bytes_of ''pool'', tokenA, tokenB]
                   else [bytes_of ''pool'', tokenB, tokenA]) programID of
             Inl e \<Rightarrow> Inl (wrapf ''failed to derive pool address'' e)
           | Inr address \<Rightarrow> Inr address)
    \<and> findPoolAddress L programID tokenB tokenA
        = (case FindProgramAddress L
                  (if String L tokenA < String L tokenB
                   then [bytes_of ''pool'', tokenA, tokenB]
                   else [bytes_of ''pool'', tokenB, tokenA]) programID of
             Inl e \<Rightarrow> Inl (wrapf ''failed to derive pool address'' e)
           | Inr address \<Rightarrow> Inr address)"
proof -
  consider (lt) "String L tokenA < String L tokenB" | (gt) "String L tokenB < String L tokenA"
    | (eq) "String L tokenA = String L tokenB"
    by (metis linorder_less_linear)
  then have s: "pool_seeds L tokenA tokenB = pool_seeds L tokenB tokenA"
  proof cases
    case lt
    then have "\<not> String L tokenB < String L tokenA" by simp
    with lt show ?thesis by (simp add: pool_seeds_def)
  next
    case gt
    then have "\<not> String L tokenA < String L tokenB" by simp
    with gt show ?thesis by (simp add: pool_seeds_def)
  next
    case eq
    with assms show ?thesis by simp
  qed
  then have c: "findPoolAddress L programID tokenA tokenB = findPoolAddress L programID tokenB tokenA"
    by (simp add: findPoolAddress_def)
  have o: "pool_seeds L tokenA tokenB = [bytes_of ''pool'', tokenA, tokenB]
         \<and> String L tokenA \<le> String L tokenB
       \<or> pool_seeds L tokenA tokenB = [bytes_of ''pool'', tokenB, tokenA]
         \<and> String L tokenB \<le> String L tokenA"
    by (auto simp: pool_seeds_def)
  have d: "findPoolAddress L programID tokenA tokenB
        = (case FindProgramAddress L
                  (if String L tokenA < String L tokenB
                   then [bytes_of ''pool'', tokenA, tokenB]
                   else [bytes_of ''pool'', tokenB, tokenA]) programID of
             Inl e \<Rightarrow> Inl (wrapf ''failed to derive pool address'' e)
           | Inr address \<Rightarrow> Inr address)"
    by (simp add: findPoolAddress_def pool_seeds_def)
  from s c o d show ?thesis
    by (simp only: simp_thms)
qed

theorem pool_address_is_symmetric_witness:
  "String sdk sol_key \<noteq> String sdk usdc_key
   \<and> String sdk usdc_key < String sdk sol_key
   \<and> pool_seeds sdk sol_key usdc_key = [bytes_of ''pool'', usdc_key, sol_key]
   \<and> pool_seeds sdk usdc_key sol_key = [bytes_of ''pool'', usdc_key, sol_key]
   \<and> findPoolAddress sdk pumpswap_key sol_key usdc_key
       = findPoolAddress sdk pumpswap_key usdc_key sol_key
   \<and> findPoolAddress sdk pumpswap_key sol_key usdc_key
       = FindProgramAddress sdk [bytes_of ''pool'', usdc_key, sol_key] pumpswap_key
   \<and> findPoolAddress sdk pumpswap_key usdc_key sol_key
       = Inr (foldl mix pumpswap_key [bytes_of ''pool'', usdc_key, sol_key])
   \<and> (\<forall>programID tokenA tokenB.
         findPoolAddress sdk programID tokenA tokenB = findPoolAddress sdk programID tokenB tokenA)"
proof -
  have n: "String sdk sol_key \<noteq> String sdk usdc_key" "String sdk usdc_key < String sdk sol_key"
    by (simp_all add: sdk_def base58_sol base58_usdc)
  have i: "String sdk tokenA = String sdk tokenB \<longrightarrow> tokenA = tokenB" for tokenA tokenB
    by (auto simp: sdk_def dest: base58_encode_inj)
  have "findPoolAddress sdk programID tokenA tokenB = findPoolAddress sdk programID tokenB tokenA"
    for programID tokenA tokenB
    using pool_address_is_symmetric [OF i, of tokenA tokenB programID] by simp
  moreover have "FindProgramAddress sdk seeds pumpswap_key = Inr (foldl mix pumpswap_key seeds)"
    for seeds
    by (simp add: sdk_def derive_def)
  moreover have "\<not> String sdk sol_key < String sdk usdc_key"
    using n(2) by simp
  ultimately show ?thesis
    using pool_address_is_symmetric [OF i, of sol_key usdc_key pumpswap_key] n
    by (simp add: pool_seeds_def)
qed


section \<open>The minimum amount out\<close>

lemma rne_shift_nonneg: "0 \<le> m \<Longrightarrow> 0 \<le> rne_shift m k"
  by (simp add: rne_shift_def Let_def pos_imp_zdiv_nonneg_iff)

lemma rne_shift_le:
  assumes "m \<le> N * 2 ^ k"
  shows "rne_shift m k \<le> N"
proof -
  let ?d = "(2::int) ^ k"
  have d: "0 < ?d" by simp
  have lo: "m div ?d \<le> N"
    using assms d by (metis zdiv_mono1 nonzero_mult_div_cancel_right less_irrefl)
  show ?thesis
  proof (cases "m div ?d = N")
    case True
    have "m = ?d * (m div ?d) + m mod ?d" by simp
    with True assms have "m mod ?d \<le> 0"
      by (simp add: mult.commute)
    moreover have "0 \<le> m mod ?d" using d by simp
    ultimately have "m mod ?d = 0" by simp
    with True d show ?thesis
      by (simp add: rne_shift_def Let_def)
  next
    case False
    with lo have "m div ?d + 1 \<le> N" by simp
    with lo show ?thesis
      by (simp add: rne_shift_def Let_def)
  qed
qed

lemma bitlen_sum_le:
  assumes "0 < m" "0 \<le> b" "b < 2 ^ w" "dyadic_le m e b"
  shows "e + bitlen m \<le> int w"
proof -
  have lb: "2 ^ nat (bitlen m - 1) \<le> m" and n1: "1 \<le> bitlen m"
    using bitlen_bounds [OF assms(1)] assms(1) by (auto simp: bitlen_alt_def)
  show ?thesis
  proof (cases "0 \<le> e")
    case True
    with assms have up: "m * 2 ^ nat e < 2 ^ w"
      by (simp add: dyadic_le_def)
    have "(2::int) ^ (nat (bitlen m - 1) + nat e) = 2 ^ nat (bitlen m - 1) * 2 ^ nat e"
      by (simp add: power_add)
    also have "\<dots> \<le> m * 2 ^ nat e"
      using lb by (simp add: mult_right_mono)
    also note up
    finally have "(2::int) ^ (nat (bitlen m - 1) + nat e) < 2 ^ w" .
    then have "nat (bitlen m - 1) + nat e < w"
      by simp
    with True n1 show ?thesis by linarith
  next
    case False
    with assms have "m \<le> b * 2 ^ nat (- e)"
      by (simp add: dyadic_le_def)
    also have "\<dots> < 2 ^ w * 2 ^ nat (- e)"
      using assms(3) by simp
    finally have "m < 2 ^ (w + nat (- e))"
      by (simp add: power_add)
    with lb have "(2::int) ^ nat (bitlen m - 1) < 2 ^ (w + nat (- e))"
      by linarith
    then have "nat (bitlen m - 1) < w + nat (- e)"
      by simp
    with False n1 show ?thesis by linarith
  qed
qed


lemma round64_below:
  assumes m: "0 \<le> m" and b: "0 \<le> b" "b < 2 ^ 53" and le: "dyadic_le m e b"
  shows "\<exists>m' e'. round64 m e = Finite m' e' \<and> 0 \<le> m' \<and> dyadic_le m' e' b"
proof (cases "m = 0")
  case True
  with b show ?thesis
    by (simp add: round64_def dyadic_le_def)
next
  case False
  with m have pos: "0 < m" by simp
  have s: "e + bitlen m \<le> 53"
    using bitlen_sum_le [OF pos b le] by simp
  define q where "q = max (e + bitlen m - 53) (- 1074)"
  have q0: "q \<le> 0"
    using s by (simp add: q_def)
  show ?thesis
  proof (cases "q \<le> e")
    case True
    with pos s have "round64 m e = Finite m e"
      by (simp add: round64_def Let_def q_def)
    with m le show ?thesis by blast
  next
    case False
    define k where "k = nat (q - e)"
    define m' where "m' = rne_shift m k"
    from False q0 have e: "e < 0" and split: "nat (- e) = nat (- q) + k"
      by (simp_all add: k_def)
    from le e have "m \<le> b * 2 ^ nat (- e)"
      by (simp add: dyadic_le_def)
    then have "m \<le> (b * 2 ^ nat (- q)) * 2 ^ k"
      by (simp add: split power_add mult.assoc)
    then have up: "m' \<le> b * 2 ^ nat (- q)"
      unfolding m'_def by (rule rne_shift_le)
    have lo: "0 \<le> m'"
      unfolding m'_def using m by (rule rne_shift_nonneg)
    have dl: "dyadic_le m' q b"
      using up q0 by (cases "q = 0") (simp_all add: dyadic_le_def)
    have "q + bitlen m' \<le> 53"
    proof (cases "m' = 0")
      case True
      with q0 show ?thesis by simp
    next
      case False
      with lo have "0 < m'" by simp
      from bitlen_sum_le [OF this b dl] show ?thesis by simp
    qed
    with pos False lo have "round64 m e = Finite m' q"
      by (simp add: round64_def Let_def q_def [symmetric] k_def [symmetric] m'_def [symmetric])
    with lo dl show ?thesis by blast
  qed
qed


lemma round64_exact:
  assumes "0 \<le> a" "a < 2 ^ 53"
  shows "round64 a 0 = Finite a 0"
proof (cases "a = 0")
  case True
  then show ?thesis by (simp add: round64_def)
next
  case False
  have "bitlen a \<le> 53"
    using assms(2) bitlen_le_iff_power [of a 53] by simp
  with False assms(1) show ?thesis
    by (simp add: round64_def Let_def)
qed

lemma trunc_int_below:
  assumes "0 \<le> p" "dyadic_le p e a"
  shows "0 \<le> trunc_int p e \<and> trunc_int p e \<le> a"
proof (cases "0 \<le> e")
  case True
  with assms show ?thesis
    by (simp add: trunc_int_def dyadic_le_def)
next
  case False
  with assms have "p \<le> a * 2 ^ nat (- e)"
    by (simp add: dyadic_le_def)
  then have "p div 2 ^ nat (- e) \<le> a * 2 ^ nat (- e) div 2 ^ nat (- e)"
    by (rule zdiv_mono1) simp
  with False assms(1) show ?thesis
    by (simp add: trunc_int_def pos_imp_zdiv_nonneg_iff)
qed

lemma one_minus_slippage:
  assumes "0 \<le> m" and "f64_le (Finite m e) f64_one"
  shows "\<exists>t et. f64_sub f64_one (Finite m e) = Finite t et \<and> 0 \<le> t \<and> dyadic_le t et 1"
proof -
  define g where "g = min 0 e"
  define x where "x = 2 ^ nat (- g) - m * 2 ^ nat (e - g)"
  have g0: "g \<le> 0" by (simp add: g_def)
  from assms(2) have "m * 2 ^ nat (e - g) \<le> 2 ^ nat (- g)"
    by (simp add: f64_one_def g_def Let_def min.commute [of e 0])
  then have x0: "0 \<le> x" by (simp add: x_def)
  have "0 \<le> m * 2 ^ nat (e - g)"
    using assms(1) by simp
  then have "x \<le> 2 ^ nat (- g)" by (simp add: x_def)
  with g0 have dl: "dyadic_le x g 1"
    by (cases "g = 0") (simp_all add: dyadic_le_def)
  have "f64_sub f64_one (Finite m e) = round64 x g"
    by (simp add: f64_sub_def f64_neg_def f64_one_def Let_def x_def g_def)
  with round64_below [OF x0 _ _ dl] show ?thesis
    by simp
qed

text \<open>
  The rounding error. Rounding to 53 bits moves a number by at most half a unit in the
  last place kept; for an amount below \<open>2^53\<close> and a slippage in (0, 1] the two roundings
  of \<open>calculateMinAmountOut\<close> move the product by less than 1 in all.
\<close>

lemma dyadic_powi: "dyadic m e = of_int m * (2::rat) powi e"
  by (simp add: dyadic_def power_int_def field_simps)

lemma rne_shift_err:
  "2 * \<bar>rne_shift m k * 2 ^ k - m\<bar> \<le> (2::int) ^ k"
proof -
  define d :: int where "d = 2 ^ k"
  define lo where "lo = m div d"
  define r where "r = m mod d"
  have d: "0 < d" by (simp add: d_def)
  have m: "m = lo * d + r"
    unfolding lo_def r_def by simp
  have r: "0 \<le> r" "r < d" using d by (simp_all add: r_def)
  have c: "rne_shift m k = (if 2 * r < d then lo else if d < 2 * r then lo + 1
                            else if even lo then lo else lo + 1)"
    by (simp add: rne_shift_def Let_def d_def lo_def r_def)
  have "2 * \<bar>x * d - (lo * d + r)\<bar> \<le> d"
    if "x = (if 2 * r < d then lo else if d < 2 * r then lo + 1
             else if even lo then lo else lo + 1)" for x
    using that r by (auto simp: algebra_simps)
  from this [OF c] show ?thesis
    using m by (simp add: d_def)
qed


lemma round64_near:
  assumes m: "0 \<le> m" and b: "0 \<le> b" "b < 2 ^ 53" and le: "dyadic_le m e b"
    and Q: "m \<noteq> 0 \<Longrightarrow> e + bitlen m - 53 \<le> Q" "- 1074 \<le> Q"
  shows "\<exists>m' e'. round64 m e = Finite m' e' \<and> 0 \<le> m' \<and> dyadic_le m' e' b
           \<and> 2 * \<bar>dyadic m' e' - dyadic m e\<bar> \<le> (2::rat) powi Q"
proof (cases "m = 0")
  case True
  have "(0::rat) \<le> 2 powi Q" by simp
  with True b show ?thesis
    by (simp add: round64_def dyadic_le_def dyadic_def)
next
  case False
  with m have pos: "0 < m" by simp
  have s: "e + bitlen m \<le> 53"
    using bitlen_sum_le [OF pos b le] by simp
  define q where "q = max (e + bitlen m - 53) (- 1074)"
  have q0: "q \<le> 0"
    using s by (simp add: q_def)
  have qQ: "q \<le> Q"
    using Q(1) [OF False] Q(2) by (simp add: q_def)
  have Q0: "(0::rat) \<le> 2 powi Q" by simp
  show ?thesis
  proof (cases "q \<le> e")
    case True
    with pos s have "round64 m e = Finite m e"
      by (simp add: round64_def Let_def q_def)
    with m le Q0 show ?thesis by simp
  next
    case False
    define k where "k = nat (q - e)"
    define m' where "m' = rne_shift m k"
    from False q0 have e: "e < 0" and split: "nat (- e) = nat (- q) + k"
      by (simp_all add: k_def)
    from False have qe: "q = e + int k"
      by (simp add: k_def)
    from le e have "m \<le> b * 2 ^ nat (- e)"
      by (simp add: dyadic_le_def)
    then have "m \<le> (b * 2 ^ nat (- q)) * 2 ^ k"
      by (simp add: split power_add mult.assoc)
    then have up: "m' \<le> b * 2 ^ nat (- q)"
      unfolding m'_def by (rule rne_shift_le)
    have lo: "0 \<le> m'"
      unfolding m'_def using m by (rule rne_shift_nonneg)
    have dl: "dyadic_le m' q b"
      using up q0 by (cases "q = 0") (simp_all add: dyadic_le_def)
    have "q + bitlen m' \<le> 53"
    proof (cases "m' = 0")
      case True
      with q0 show ?thesis by simp
    next
      case False
      with lo have "0 < m'" by simp
      from bitlen_sum_le [OF this b dl] show ?thesis by simp
    qed
    with pos False lo have r: "round64 m e = Finite m' q"
      by (simp add: round64_def Let_def q_def [symmetric] k_def [symmetric] m'_def [symmetric])
    have p: "(2::rat) powi q = of_int (2 ^ k) * 2 powi e"
      by (simp add: qe power_int_add power_int_of_nat)
    have "dyadic m' q - dyadic m e = of_int (m' * 2 ^ k - m) * (2::rat) powi e"
      by (simp add: dyadic_powi p algebra_simps)
    then have "2 * \<bar>dyadic m' q - dyadic m e\<bar>
        = of_int (2 * \<bar>m' * 2 ^ k - m\<bar>) * (2::rat) powi e"
      by (simp add: abs_mult)
    also have "\<dots> \<le> of_int (2 ^ k) * (2::rat) powi e"
    proof (rule mult_right_mono)
      show "(of_int (2 * \<bar>m' * 2 ^ k - m\<bar>) :: rat) \<le> of_int (2 ^ k)"
        using rne_shift_err [of m k] unfolding m'_def of_int_le_iff .
      show "(0::rat) \<le> 2 powi e" by simp
    qed
    also have "\<dots> = 2 powi q" by (simp add: p)
    also have "\<dots> \<le> 2 powi Q"
      using qQ by (intro power_int_increasing) simp_all
    finally have "2 * \<bar>dyadic m' q - dyadic m e\<bar> \<le> (2::rat) powi Q" .
    with r lo dl show ?thesis by blast
  qed
qed

lemma trunc_int_floor:
  assumes "0 \<le> p"
  shows "trunc_int p e = \<lfloor>dyadic p e\<rfloor>"
proof (cases "0 \<le> e")
  case True
  then have "dyadic p e = of_int (p * 2 ^ nat e)"
    by (simp only: dyadic_def if_True)
  then have "\<lfloor>dyadic p e\<rfloor> = p * 2 ^ nat e"
    by (simp only: floor_of_int)
  with True show ?thesis
    by (simp add: trunc_int_def)
next
  case False
  then have "dyadic p e = of_int p / of_int (2 ^ nat (- e))"
    by (simp only: dyadic_def if_False)
  then have "\<lfloor>dyadic p e\<rfloor> = p div 2 ^ nat (- e)"
    by (simp only: floor_divide_of_int_eq)
  with False assms show ?thesis
    by (simp add: trunc_int_def)
qed

lemma floor_near:
  fixes p x :: rat
  assumes "\<bar>p - x\<bar> < 1"
  shows "\<bar>\<lfloor>p\<rfloor> - \<lfloor>x\<rfloor>\<bar> \<le> 1"
proof -
  from assms have a: "p \<le> x + of_int 1" and b: "x \<le> p + of_int 1" by simp_all
  from a have "\<lfloor>p\<rfloor> \<le> \<lfloor>x + of_int 1\<rfloor>" by (rule floor_mono)
  moreover from b have "\<lfloor>x\<rfloor> \<le> \<lfloor>p + of_int 1\<rfloor>" by (rule floor_mono)
  ultimately show ?thesis
    unfolding floor_add_int [symmetric] by simp
qed

lemma min_out_near_floor:
  assumes pos: "f64_lt f64_zero (Finite m e)" and le1: "f64_le (Finite m e) f64_one"
    and a: "uint amountOut < 2 ^ 53"
  shows "\<bar>uint (calculateMinAmountOut oor amountOut (Finite m e))
           - spec_minAmountOut (uint amountOut) (dyadic m e)\<bar> \<le> 1"
proof -
  let ?a = "uint amountOut"
  have a0: "0 \<le> ?a" by simp
  from pos have m0: "0 < m"
    by (simp add: f64_zero_def Let_def zero_less_mult_iff)
  then have nle: "\<not> f64_le (Finite m e) f64_zero"
    by (simp add: f64_zero_def Let_def mult_le_0_iff)
  define g where "g = min 0 e"
  define x where "x = 2 ^ nat (- g) - m * 2 ^ nat (e - g)"
  have g0: "g \<le> 0" by (simp add: g_def)
  from le1 have "m * 2 ^ nat (e - g) \<le> 2 ^ nat (- g)"
    by (simp add: f64_one_def g_def Let_def min.commute [of e 0])
  then have x0: "0 \<le> x" by (simp add: x_def)
  have "0 < m * 2 ^ nat (e - g)"
    using m0 by simp
  then have xlt: "x < 2 ^ nat (- g)" by (simp add: x_def)
  with g0 have dl: "dyadic_le x g 1"
    by (cases "g = 0") (simp_all add: dyadic_le_def)
  have "bitlen x \<le> int (nat (- g))"
    using xlt g0 bitlen_le_iff_power [of x "nat (- g)"] by simp
  with g0 have bx: "g + bitlen x - 53 \<le> - 53" by simp
  have sub: "f64_sub f64_one (Finite m e) = round64 x g"
    by (simp add: f64_sub_def f64_neg_def f64_one_def Let_def x_def g_def)
  have xv: "dyadic x g = 1 - dyadic m e"
  proof -
    have "e = g + int (nat (e - g))" "0 = g + int (nat (- g))"
      by (simp_all add: g_def)
    then have "(2::rat) powi e = 2 powi g * 2 ^ nat (e - g)" "(2::rat) powi 0 = 2 powi g * 2 ^ nat (- g)"
      by (metis power_int_add power_int_of_nat zero_neq_numeral)+
    then show ?thesis
      by (simp add: dyadic_powi x_def algebra_simps)
  qed
  obtain t et where t: "round64 x g = Finite t et" "0 \<le> t" "dyadic_le t et 1"
    "2 * \<bar>dyadic t et - dyadic x g\<bar> \<le> (2::rat) powi (- 53)"
    using round64_near [OF x0 _ _ dl, of "- 53"] bx by auto
  have dla: "dyadic_le (?a * t) et ?a"
  proof (cases "0 \<le> et")
    case True
    with t(3) have "t * 2 ^ nat et \<le> 1" by (simp add: dyadic_le_def)
    then have "?a * (t * 2 ^ nat et) \<le> ?a * 1"
      using a0 by (rule mult_left_mono)
    with True show ?thesis by (simp add: dyadic_le_def mult.assoc)
  next
    case False
    with t(3) have "t \<le> 2 ^ nat (- et)" by (simp add: dyadic_le_def)
    then have "?a * t \<le> ?a * 2 ^ nat (- et)"
      using a0 by (rule mult_left_mono)
    with False show ?thesis by (simp add: dyadic_le_def)
  qed
  have at0: "0 \<le> ?a * t"
    using a0 t(2) by simp
  have bat: "et + bitlen (?a * t) - 53 \<le> 0" if "?a * t \<noteq> 0"
  proof -
    from that at0 have "0 < ?a * t" by (metis order_less_le)
    from bitlen_sum_le [OF this a0 a dla] show ?thesis by simp
  qed
  obtain p ep where p: "round64 (?a * t) et = Finite p ep" "0 \<le> p" "dyadic_le p ep ?a"
    "2 * \<bar>dyadic p ep - dyadic (?a * t) et\<bar> \<le> (2::rat) powi 0"
    using round64_near [OF at0 a0 a dla, of 0] bat by auto
  have mul: "f64_mul (f64_of_uint64 amountOut) (f64_sub f64_one (Finite m e)) = Finite p ep"
    by (simp add: f64_of_uint64_def round64_exact [OF a0 a] sub t(1) p(1))
  from trunc_int_below [OF p(2,3)] have r: "0 \<le> trunc_int p ep" "trunc_int p ep \<le> ?a"
    by simp_all
  have a64: "?a < 2 ^ 64"
    using uint_lt2p [of amountOut] by simp
  have c: "calculateMinAmountOut oor amountOut (Finite m e) = word_of_int (trunc_int p ep)"
    using nle r a64 by (simp add: calculateMinAmountOut_def uint64_of_f64_def Let_def mul)
  have "uint (word_of_int (trunc_int p ep) :: u64) = trunc_int p ep"
    using r a64 by (simp add: uint_word_of_int take_bit_int_eq_self)
  then have u: "uint (calculateMinAmountOut oor amountOut (Finite m e)) = \<lfloor>dyadic p ep\<rfloor>"
    unfolding c by (simp only: trunc_int_floor [OF p(2)])
  have e1: "\<bar>dyadic t et - (1 - dyadic m e)\<bar> \<le> (2::rat) powi (- 54)"
  proof -
    have "(2::rat) powi (- 53) = 2 * 2 powi (- 54)"
      by (simp add: power_int_minus)
    with t(4) show ?thesis by (simp add: xv)
  qed
  define A :: rat where "A = of_int ?a"
  have A0: "0 \<le> A"
    unfolding A_def using a0 by (simp only: of_int_0_le_iff)
  have "(of_int ?a :: rat) < of_int (2 ^ 53)"
    using a by (simp only: of_int_less_iff)
  then have A53: "A < 2 ^ 53"
    unfolding A_def by (simp only: of_int_power of_int_numeral)
  have "dyadic (?a * t) et = A * dyadic t et"
    unfolding A_def by (simp only: dyadic_powi of_int_mult mult.assoc)
  with p(4) have e2: "\<bar>dyadic p ep - A * dyadic t et\<bar> \<le> 1 / 2"
    by simp
  have "A * \<bar>dyadic t et - (1 - dyadic m e)\<bar> \<le> A * (2::rat) powi (- 54)"
    using e1 A0 by (rule mult_left_mono)
  also have "\<dots> < 2 ^ 53 * (2::rat) powi (- 54)"
    using A53 by (rule mult_strict_right_mono) simp
  also have "\<dots> = 1 / 2"
    by (simp add: power_int_minus)
  finally have "A * \<bar>dyadic t et - (1 - dyadic m e)\<bar> < 1 / 2" .
  moreover have "\<bar>A * dyadic t et - A * (1 - dyadic m e)\<bar> = A * \<bar>dyadic t et - (1 - dyadic m e)\<bar>"
    using A0 by (simp only: right_diff_distrib [symmetric] abs_mult abs_of_nonneg)
  ultimately have e3: "\<bar>A * dyadic t et - A * (1 - dyadic m e)\<bar> < 1 / 2"
    by simp
  have "\<bar>dyadic p ep - A * (1 - dyadic m e)\<bar> < 1"
    using e2 e3 by linarith
  from floor_near [OF this] show ?thesis
    unfolding u spec_minAmountOut_def A_def .
qed

lemma spec_scenario:
  "spec_minAmountOut 1000000000 (dyadic 5764607523034235 (- 60)) = 994999999"
  by code_simp

text \<open>
  C3, as amended. \<open>calculateMinAmountOut\<close> returns \<open>amountOut\<close> unchanged when the slippage
  is at most 0, in particular at slippage 0. Otherwise it returns the \<open>float64\<close> product of
  \<open>float64(amountOut)\<close> and \<open>1.0 - slippage\<close>, each operation rounded, converted to
  \<open>uint64\<close>. For a slippage in [0, 1] and an amount below \<open>2^53\<close> (which \<open>float64\<close> holds
  exactly) the result is at most \<open>amountOut\<close>, and for a positive such slippage it differs
  from the exact \<open>floor(amountOut \<times> (1 \<minus> slippage))\<close> by at most 1.
\<close>

theorem calculateMinAmountOut_bounds:
  "(f64_le slippage f64_zero \<longrightarrow> calculateMinAmountOut oor amountOut slippage = amountOut)
   \<and> calculateMinAmountOut oor amountOut f64_zero = amountOut
   \<and> (f64_le f64_zero slippage \<and> f64_le slippage f64_one \<and> uint amountOut < 2 ^ 53 \<longrightarrow>
        calculateMinAmountOut oor amountOut slippage \<le> amountOut)
   \<and> (\<not> f64_le slippage f64_zero \<longrightarrow>
        calculateMinAmountOut oor amountOut slippage
          = uint64_of_f64 oor (f64_mul (f64_of_uint64 amountOut) (f64_sub f64_one slippage)))
   \<and> (slippage = Finite m e \<and> f64_lt f64_zero slippage \<and> f64_le slippage f64_one
        \<and> uint amountOut < 2 ^ 53 \<longrightarrow>
        \<bar>uint (calculateMinAmountOut oor amountOut slippage)
           - spec_minAmountOut (uint amountOut) (dyadic m e)\<bar> \<le> 1)"
proof (intro conjI impI)
  show "calculateMinAmountOut oor amountOut slippage = amountOut" if "f64_le slippage f64_zero"
    using that by (simp add: calculateMinAmountOut_def)
  show "calculateMinAmountOut oor amountOut f64_zero = amountOut"
    by (simp add: calculateMinAmountOut_def f64_zero_def)
next
  assume h: "f64_le f64_zero slippage \<and> f64_le slippage f64_one \<and> uint amountOut < 2 ^ 53"
  then obtain m e where s: "slippage = Finite m e"
    by (cases slippage) (simp_all add: f64_zero_def f64_one_def)
  from h have m0: "0 \<le> m"
    by (simp add: s f64_zero_def Let_def zero_le_mult_iff)
  show "calculateMinAmountOut oor amountOut slippage \<le> amountOut"
  proof (cases "f64_le slippage f64_zero")
    case True
    then show ?thesis by (simp add: calculateMinAmountOut_def)
  next
    case False
    let ?a = "uint amountOut"
    have a: "0 \<le> ?a" "?a < 2 ^ 53"
      using h by simp_all
    obtain t et where t: "f64_sub f64_one slippage = Finite t et" "0 \<le> t" "dyadic_le t et 1"
      using one_minus_slippage [OF m0] h s by blast
    have "dyadic_le (?a * t) et ?a"
    proof (cases "0 \<le> et")
      case True
      with t(3) have "t * 2 ^ nat et \<le> 1" by (simp add: dyadic_le_def)
      then have "?a * (t * 2 ^ nat et) \<le> ?a * 1"
        using a(1) by (rule mult_left_mono)
      with True show ?thesis by (simp add: dyadic_le_def mult.assoc)
    next
      case False
      with t(3) have "t \<le> 2 ^ nat (- et)" by (simp add: dyadic_le_def)
      then have "?a * t \<le> ?a * 2 ^ nat (- et)"
        using a(1) by (rule mult_left_mono)
      with False show ?thesis by (simp add: dyadic_le_def)
    qed
    moreover have "0 \<le> ?a * t"
      using a(1) t(2) by simp
    ultimately obtain p ep where
      p: "round64 (?a * t) et = Finite p ep" "0 \<le> p" "dyadic_le p ep ?a"
      using round64_below [OF _ a] by blast
    have "f64_mul (f64_of_uint64 amountOut) (f64_sub f64_one slippage) = Finite p ep"
      by (simp add: f64_of_uint64_def round64_exact [OF a] t(1) p(1))
    moreover from trunc_int_below [OF p(2,3)] have
      r: "0 \<le> trunc_int p ep" "trunc_int p ep \<le> ?a"
      by simp_all
    moreover have "?a < 2 ^ 64"
      using uint_lt2p [of amountOut] by simp
    ultimately have c: "calculateMinAmountOut oor amountOut slippage = word_of_int (trunc_int p ep)"
      using False r by (simp add: calculateMinAmountOut_def uint64_of_f64_def Let_def)
    have "uint (word_of_int (trunc_int p ep) :: u64) = trunc_int p ep"
      using r \<open>?a < 2 ^ 64\<close> by (simp add: uint_word_of_int take_bit_int_eq_self)
    with r show ?thesis
      unfolding c by (simp add: word_le_def)
  qed
next
  assume "\<not> f64_le slippage f64_zero"
  then show "calculateMinAmountOut oor amountOut slippage
      = uint64_of_f64 oor (f64_mul (f64_of_uint64 amountOut) (f64_sub f64_one slippage))"
    by (simp add: calculateMinAmountOut_def)
next
  assume "slippage = Finite m e \<and> f64_lt f64_zero slippage \<and> f64_le slippage f64_one
        \<and> uint amountOut < 2 ^ 53"
  then have "slippage = Finite m e" "f64_lt f64_zero (Finite m e)"
    "f64_le (Finite m e) f64_one" "uint amountOut < 2 ^ 53"
    by auto
  then show "\<bar>uint (calculateMinAmountOut oor amountOut slippage)
           - spec_minAmountOut (uint amountOut) (dyadic m e)\<bar> \<le> 1"
    using min_out_near_floor [of m e amountOut oor] by blast
qed

theorem calculateMinAmountOut_bounds_witness:
  "f64_le f64_zero f64_0_005 \<and> f64_le f64_0_005 f64_one \<and> uint (1000000000 :: u64) < 2 ^ 53
   \<and> f64_lt f64_zero f64_0_005 \<and> \<not> f64_le f64_0_005 f64_zero
   \<and> calculateMinAmountOut no_oor 1000000000 f64_0_005 \<le> 1000000000
   \<and> calculateMinAmountOut no_oor 1000000000 f64_0_005 = 995000000
   \<and> uint64_of_f64 no_oor (f64_mul (f64_of_uint64 1000000000) (f64_sub f64_one f64_0_005))
       = 995000000
   \<and> spec_minAmountOut 1000000000 (dyadic 5764607523034235 (- 60)) = 994999999
   \<and> \<bar>uint (calculateMinAmountOut no_oor 1000000000 f64_0_005)
        - spec_minAmountOut (uint (1000000000 :: u64)) (dyadic 5764607523034235 (- 60))\<bar> \<le> 1
   \<and> f64_le (Finite (- 1) 0) f64_zero
   \<and> calculateMinAmountOut no_oor 1000000000 (Finite (- 1) 0) = 1000000000"
proof -
  have h: "f64_le f64_zero f64_0_005" "f64_le f64_0_005 f64_one"
    "uint (1000000000 :: u64) < 2 ^ 53" "f64_le (Finite (- 1) 0) f64_zero"
    "f64_lt f64_zero f64_0_005" "\<not> f64_le f64_0_005 f64_zero"
    "f64_0_005 = Finite 5764607523034235 (- 60)"
    by (simp_all add: f64_zero_def f64_one_def f64_0_005_def)
  from calculateMinAmountOut_bounds [of f64_0_005 no_oor 1000000000 5764607523034235 "- 60"]
       calculateMinAmountOut_bounds [of "Finite (- 1) 0" no_oor 1000000000]
       h calc_scenario [of no_oor] spec_scenario
  show ?thesis by simp
qed

text \<open>
  C3, as stated, fails. With \<open>amountOut = 2^54 + 3\<close> and the slippage \<open>2^-60\<close>, which lies
  in [0, 1], \<open>float64(amountOut)\<close> is \<open>2^54 + 4\<close> and \<open>1.0 - slippage\<close> rounds to 1: the result
  \<open>2^54 + 4\<close> exceeds \<open>amountOut\<close>, while the exact floor is \<open>2^54 + 2\<close>. With
  \<open>amountOut = 1\<close> and the same slippage the result is 1 and the exact floor is 0.
\<close>

theorem calculateMinAmountOut_exceeds_amountOut:
  "f64_le f64_zero (Finite 1 (- 60)) \<and> f64_le (Finite 1 (- 60)) f64_one
   \<and> calculateMinAmountOut no_oor 18014398509481987 (Finite 1 (- 60)) = 18014398509481988
   \<and> \<not> calculateMinAmountOut no_oor 18014398509481987 (Finite 1 (- 60)) \<le> 18014398509481987
   \<and> spec_minAmountOut 18014398509481987 (dyadic 1 (- 60)) = 18014398509481986
   \<and> calculateMinAmountOut no_oor 1 (Finite 1 (- 60)) = 1
   \<and> spec_minAmountOut 1 (dyadic 1 (- 60)) = 0"
  by code_simp

end
